theory Spec2Isabelle
  imports Main "HOL-Library.Word" "HOL-Library.Sublist"
begin

unbundle bit_operations_syntax

section \<open>Go errors\<close>

text \<open>
  Every error the repository creates is made by \<^verbatim>\<open>fmt.Errorf\<close>. With the verb
  \<^verbatim>\<open>%w\<close> the value is a \<^verbatim>\<open>*fmt.wrapError\<close> (message and wrapped cause); with
  \<^verbatim>\<open>%v\<close>, or with no error argument, it is what \<^verbatim>\<open>errors.New\<close> returns, a
  \<^verbatim>\<open>*errors.errorString\<close> that holds the message only. The repository declares no
  error type of its own. \<^verbatim>\<open>os.ReadFile\<close>, \<^verbatim>\<open>os.WriteFile\<close> and
  \<^verbatim>\<open>os.MkdirAll\<close> fail with a \<^verbatim>\<open>*fs.PathError\<close> (operation, path, cause).
  The constructors are these dynamic types; an error of a collaborator (a delegate, the
  crypto library) is kept as an \<open>errorString\<close> of its message.
\<close>

datatype error =
    errorString string
  | wrapError string error
  | PathError string string string

text \<open>The method \<^verbatim>\<open>Error()\<close>: the message of an error.\<close>

fun Error :: "error \<Rightarrow> string" where
  "Error (errorString s) = s"
| "Error (wrapError msg err) = msg"
| "Error (PathError op path err) = op @ '' '' @ path @ '': '' @ err"

text \<open>The dynamic type of an error value, what \<^verbatim>\<open>%T\<close>, a type switch or
  \<^verbatim>\<open>errors.As\<close> can see.\<close>

datatype error_type = T_errorString | T_wrapError | T_PathError

fun TypeOf :: "error \<Rightarrow> error_type" where
  "TypeOf (errorString s) = T_errorString"
| "TypeOf (wrapError msg err) = T_wrapError"
| "TypeOf (PathError op path err) = T_PathError"

section \<open>Package auth: permissions and the caller's identity\<close>

type_synonym Permission = string

definition ClusterView :: Permission where "ClusterView = ''cluster:view''"
definition ClusterAdmin :: Permission where "ClusterAdmin = ''cluster:admin''"
definition ServiceView :: Permission where "ServiceView = ''service:view''"
definition ServiceOperate :: Permission where "ServiceOperate = ''service:operate''"
definition ServiceRestart :: Permission where "ServiceRestart = ''service:restart''"
definition ServiceAdmin :: Permission where "ServiceAdmin = ''service:admin''"
definition HostView :: Permission where "HostView = ''host:view''"
definition HostManage :: Permission where "HostManage = ''host:manage''"
definition AlertView :: Permission where "AlertView = ''alert:view''"
definition AlertManage :: Permission where "AlertManage = ''alert:manage''"
definition AlertAdmin :: Permission where "AlertAdmin = ''alert:admin''"
definition ConfigView :: Permission where "ConfigView = ''config:view''"
definition ConfigModify :: Permission where "ConfigModify = ''config:modify''"

lemmas Permission_defs =
  ClusterView_def ClusterAdmin_def ServiceView_def ServiceOperate_def ServiceRestart_def
  ServiceAdmin_def HostView_def HostManage_def AlertView_def AlertManage_def AlertAdmin_def
  ConfigView_def ConfigModify_def

text \<open>\<^verbatim>\<open>PermissionGroups\<close>, a lookup of a name that is not a key yields the nil
  slice.\<close>

definition PermissionGroups :: "string \<Rightarrow> Permission list" where
  "PermissionGroups g =
     (if g = ''ADMIN'' then
        [ClusterView, ClusterAdmin, ServiceView, ServiceOperate, ServiceRestart, ServiceAdmin,
         HostView, HostManage, AlertView, AlertManage, AlertAdmin, ConfigView, ConfigModify]
      else if g = ''OPERATOR'' then
        [ClusterView, ServiceView, ServiceOperate, ServiceRestart,
         HostView, AlertView, AlertManage, ConfigView]
      else if g = ''VIEWER'' then
        [ClusterView, ServiceView, HostView, AlertView, ConfigView]
      else [])"

record AuthContext =
  Username :: string
  Groups :: "string list"
  Permissions :: "Permission list"
  IsValidated :: bool
  Source :: string
  Headers :: "string \<rightharpoonup> string"

text \<open>\<^verbatim>\<open>HasPermission\<close>: the loop over \<^verbatim>\<open>a.Permissions\<close> that returns at the first
  equal element.\<close>

fun HasPermission_loop :: "Permission list \<Rightarrow> Permission \<Rightarrow> bool" where
  "HasPermission_loop [] perm = False"
| "HasPermission_loop (p # ps) perm = (if p = perm then True else HasPermission_loop ps perm)"

definition HasPermission :: "AuthContext \<Rightarrow> Permission \<Rightarrow> bool" where
  "HasPermission a perm = HasPermission_loop (Permissions a) perm"

text \<open>\<^verbatim>\<open>HasAllPermissions\<close>: the loop over the required permissions that returns false
  at the first one the identity has not.\<close>

fun HasAllPermissions :: "AuthContext \<Rightarrow> Permission list \<Rightarrow> bool" where
  "HasAllPermissions a [] = True"
| "HasAllPermissions a (perm # perms) =
     (if \<not> HasPermission a perm then False else HasAllPermissions a perms)"

section \<open>Package operations: the Operation interface and the Executor\<close>

type_synonym OperationType = string

definition ReadOnly :: OperationType where "ReadOnly = ''readonly''"
definition Actionable :: OperationType where "Actionable = ''actionable''"

text \<open>
  The Operation interface as a record of its methods. The metadata methods are the field
  getters of \<^verbatim>\<open>ReadOnlyBase\<close> and \<^verbatim>\<open>ActionableBase\<close>. \<open>'a\<close> is the argument
  map, \<open>'r\<close> the delegate's result, \<open>'s\<close> the state of the world the delegate acts on
  (the remote cluster): \<^verbatim>\<open>Validate\<close> only inspects its arguments, \<^verbatim>\<open>Execute\<close>
  returns a result or an error and the new state.
\<close>

record ('a, 'r, 's) Operation =
  Name :: string
  Description :: string
  Type :: OperationType
  Category :: string
  RequiredPermissions :: "Permission list"
  Validate :: "'a \<Rightarrow> error option"
  Execute :: "'a \<Rightarrow> 's \<Rightarrow> (error + 'r) \<times> 's"

text \<open>An instant as \<^verbatim>\<open>time.Now()\<close> returns it: the wall clock reading (nanoseconds
  since the Unix epoch) and the monotonic clock reading (nanoseconds).\<close>

record Time =
  wall_ns :: int
  mono_ns :: int

definition maxDuration :: int where "maxDuration = 2 ^ 63 - 1"
definition minDuration :: int where "minDuration = - (2 ^ 63)"

text \<open>\<^verbatim>\<open>time.Since(start)\<close> at the instant \<open>now\<close>: \<open>start\<close> comes from
  \<^verbatim>\<open>time.Now()\<close> and so has a monotonic reading; the result is the difference of the
  monotonic readings, saturated to the range of \<^verbatim>\<open>int64\<close> nanoseconds.\<close>

definition time_Since :: "Time \<Rightarrow> Time \<Rightarrow> int" where
  "time_Since start now =
     (let d = mono_ns now - mono_ns start
      in if d > maxDuration then maxDuration
         else if d < minDuration then minDuration
         else d)"

text \<open>\<^verbatim>\<open>Duration.Milliseconds\<close>: \<^verbatim>\<open>int64(d) / 1e6\<close>, Go's division, which truncates
  towards zero.\<close>

definition Milliseconds :: "int \<Rightarrow> int" where
  "Milliseconds d = (if d < 0 then - ((- d) div 1000000) else d div 1000000)"

text \<open>
  \<^verbatim>\<open>t.UTC().Format(time.RFC3339)\<close>. The layout \<^verbatim>\<open>2006-01-02T15:04:05Z07:00\<close> has no
  field for fractions of a second, so the text written for a UTC time names the whole
  second the time lies in. The model keeps the text by what it denotes: that second,
  counted from the Unix epoch.
\<close>

datatype RFC3339 = RFC3339_UTC (unix_seconds: int)

definition Format_RFC3339_UTC :: "Time \<Rightarrow> RFC3339" where
  "Format_RFC3339_UTC t = RFC3339_UTC (wall_ns t div 1000000000)"

record 'r OperationResult =
  Tool :: string
  OperationType :: string
  ExecutionMs :: int
  Timestamp :: RFC3339
  Result :: 'r

text \<open>What \<^verbatim>\<open>Run\<close> does besides returning: the entries it hands to the logger and its
  calls of the delegate's methods, in program order.\<close>

datatype Level = ErrorLevel | InfoLevel | DebugLevel

text \<open>A log entry: level, message and fields (\<^verbatim>\<open>WithFields\<close>); a field holds a text
  or a number, an error is logged by its message.\<close>

datatype field = Text string | Number int

datatype Entry = Entry Level string "(string \<times> field) list"

datatype 'a event =
    Logged Entry
  | Called_Validate 'a
  | Called_Execute 'a

text \<open>The three clock readings of one \<^verbatim>\<open>Run\<close>: \<^verbatim>\<open>start := time.Now()\<close>, the reading
  inside \<^verbatim>\<open>time.Since(start)\<close>, and the \<^verbatim>\<open>time.Now()\<close> of the timestamp.\<close>

record RunClock =
  now_start :: Time
  now_since :: Time
  now_stamp :: Time

text \<open>\<^verbatim>\<open>%v\<close> of a \<^verbatim>\<open>[]auth.Permission\<close>: the elements separated by one space, in
  square brackets.\<close>

fun join_space :: "string list \<Rightarrow> string" where
  "join_space [] = []"
| "join_space [x] = x"
| "join_space (x # y # ys) = x @ '' '' @ join_space (y # ys)"

definition fmt_v :: "Permission list \<Rightarrow> string" where
  "fmt_v ps = ''['' @ join_space ps @ '']''"

definition checkPermissions :: "('a, 'r, 's) Operation \<Rightarrow> AuthContext \<Rightarrow> error option" where
  "checkPermissions op authCtx =
     (let required = RequiredPermissions op
      in if length required = 0 then None
         else if \<not> HasAllPermissions authCtx required
           then Some (errorString (''insufficient permissions for '' @ Name op
                        @ '' (requires '' @ fmt_v required @ '')''))
         else None)"

text \<open>
  \<^verbatim>\<open>Executor.Run\<close>. The caller's identity is passed as the record itself: the pointer
  is built in place at the one call site (\<^verbatim>\<open>registerMCPTool\<close>) and is never nil. The
  result is what \<^verbatim>\<open>Run\<close> returns, the events it caused, and the state of the world
  after it.
\<close>

definition Run ::
  "RunClock \<Rightarrow> ('a, 'r, 's) Operation \<Rightarrow> 'a \<Rightarrow> AuthContext \<Rightarrow> 's
     \<Rightarrow> (error + 'r OperationResult) \<times> 'a event list \<times> 's" where
  "Run clk op args authCtx s =
     (let start = now_start clk in
      (case checkPermissions op authCtx of
         Some err \<Rightarrow> (Inl err, [], s)
       | None \<Rightarrow>
          (let requested =
                 (if Type op = Actionable
                  then [Logged (Entry InfoLevel ''Actionable operation requested''
                          [(''user'', Text (Username authCtx)), (''tool'', Text (Name op)),
                           (''type'', Text ''actionable'')])]
                  else [])
           in (case Validate op args of
                 Some err \<Rightarrow>
                   (Inl (wrapError (''validation failed for '' @ Name op @ '': '' @ Error err) err),
                    requested @ [Called_Validate args], s)
               | None \<Rightarrow>
                   (case Execute op args s of
                      (Inl err, s') \<Rightarrow>
                        (Inl (wrapError (''operation '' @ Name op @ '' failed: '' @ Error err) err),
                         requested @ [Called_Validate args, Called_Execute args,
                           Logged (Entry ErrorLevel ''Operation failed''
                             [(''tool'', Text (Name op)), (''error'', Text (Error err))])],
                         s')
                    | (Inr result, s') \<Rightarrow>
                        (let elapsed = Milliseconds (time_Since start (now_since clk))
                         in (Inr \<lparr> Tool = Name op,
                                   OperationType = Type op,
                                   ExecutionMs = elapsed,
                                   Timestamp = Format_RFC3339_UTC (now_stamp clk),
                                   Result = result \<rparr>,
                             requested @ [Called_Validate args, Called_Execute args],
                             s')))))))"

text \<open>The permissions of \<open>required\<close> that the identity lacks, in the order required.\<close>

definition missing_permissions :: "AuthContext \<Rightarrow> Permission list \<Rightarrow> Permission list" where
  "missing_permissions authCtx required = filter (\<lambda>p. \<not> HasPermission authCtx p) required"

text \<open>Whether the delegate's methods were called during a run.\<close>

fun is_Called_Validate :: "'a event \<Rightarrow> bool" where
  "is_Called_Validate (Called_Validate a) = True"
| "is_Called_Validate e = False"

fun is_Called_Execute :: "'a event \<Rightarrow> bool" where
  "is_Called_Execute (Called_Execute a) = True"
| "is_Called_Execute e = False"

subsection \<open>One operation of the catalogue\<close>

text \<open>The argument map \<^verbatim>\<open>map[string]interface{}\<close>: a value is a string or something
  else.\<close>

datatype arg = String string | NotString

type_synonym args = "string \<rightharpoonup> arg"

text \<open>\<^verbatim>\<open>StartService.Validate\<close>: each of the two type assertions
  \<^verbatim>\<open>args[k].(string)\<close> must succeed.\<close>

definition StartService_Validate :: "args \<Rightarrow> error option" where
  "StartService_Validate a =
     (case a ''clusterName'' of
        Some (String c) \<Rightarrow>
          (case a ''serviceName'' of
             Some (String sv) \<Rightarrow> None
           | _ \<Rightarrow> Some (errorString ''serviceName is required''))
      | _ \<Rightarrow> Some (errorString ''clusterName is required''))"

text \<open>\<^verbatim>\<open>NewStartService\<close>; the request to the remote cluster, which \<^verbatim>\<open>Execute\<close>
  sends through the client, is the parameter \<open>exec\<close>.\<close>

definition StartService ::
  "(args \<Rightarrow> 's \<Rightarrow> (error + 'r) \<times> 's) \<Rightarrow> (args, 'r, 's) Operation" where
  "StartService exec =
     \<lparr> Name = ''ambari_services_startservice'',
       Description = ''Start a specific service on the cluster'',
       Type = Actionable,
       Category = ''services'',
       RequiredPermissions = [ServiceOperate],
       Validate = StartService_Validate,
       Execute = exec \<rparr>"

subsection \<open>Sample callers and delegates\<close>

text \<open>The identity that \<^verbatim>\<open>registerMCPTool\<close> builds for the local pipe.\<close>

definition stdio_user :: AuthContext where
  "stdio_user =
     \<lparr> Username = ''stdio-user'', Groups = [''ambari-admins''],
       Permissions = PermissionGroups ''ADMIN'',
       IsValidated = True, Source = ''stdio'', Headers = Map.empty \<rparr>"

text \<open>An identity with the permissions of the group VIEWER, and one with none.\<close>

definition viewer :: AuthContext where
  "viewer =
     \<lparr> Username = ''alice'', Groups = [''VIEWER''],
       Permissions = PermissionGroups ''VIEWER'',
       IsValidated = True, Source = ''LDAP'', Headers = Map.empty \<rparr>"

definition nobody :: AuthContext where
  "nobody =
     \<lparr> Username = ''bob'', Groups = [],
       Permissions = [],
       IsValidated = True, Source = ''LDAP'', Headers = Map.empty \<rparr>"

text \<open>A delegate that accepts every request and counts its calls: the state of the world
  is the number of calls so far.\<close>

definition counting_delegate :: "args \<Rightarrow> nat \<Rightarrow> (error + string) \<times> nat" where
  "counting_delegate a n = (Inr ''accepted'', Suc n)"

text \<open>An operation that requires two permissions, and one that requires none.\<close>

definition RestartService :: "(args, string, nat) Operation" where
  "RestartService =
     (StartService counting_delegate)
       \<lparr> Name := ''ambari_services_restartservice'',
         RequiredPermissions := [ServiceView, ServiceRestart] \<rparr>"

definition Ping :: "(args, string, nat) Operation" where
  "Ping =
     \<lparr> Name = ''ambari_ping'', Description = ''Liveness probe'',
       Type = ReadOnly, Category = ''server'', RequiredPermissions = [],
       Validate = (\<lambda>a. None), Execute = counting_delegate \<rparr>"

definition start_args :: args where
  "start_args = [''clusterName'' \<mapsto> String ''c1'', ''serviceName'' \<mapsto> String ''HDFS'']"

text \<open>Clock readings 50 ms apart within one second: the invocation starts at
  1700000000.9 s and completes at 1700000000.95 s.\<close>

definition sample_clock :: RunClock where
  "sample_clock =
     \<lparr> now_start = \<lparr> wall_ns = 1700000000900000000, mono_ns = 5000000000 \<rparr>,
       now_since = \<lparr> wall_ns = 1700000000950000000, mono_ns = 5050000000 \<rparr>,
       now_stamp = \<lparr> wall_ns = 1700000000950000001, mono_ns = 5050000001 \<rparr> \<rparr>"

section \<open>Package operations: the Registry\<close>

text \<open>
  The registry: the map from names to operations and the two lists by type. The mutex
  serialises the methods, so each is one step on the registry's state. \<^verbatim>\<open>Register\<close>
  returns its error (or none), the registry afterwards, and what it logged.
\<close>

record ('a, 'r, 's) Registry =
  ops :: "string \<rightharpoonup> ('a, 'r, 's) Operation"
  readonly :: "('a, 'r, 's) Operation list"
  actionable :: "('a, 'r, 's) Operation list"

definition NewRegistry :: "('a, 'r, 's) Registry" where
  "NewRegistry = \<lparr> ops = Map.empty, readonly = [], actionable = [] \<rparr>"

definition Register ::
  "('a, 'r, 's) Registry \<Rightarrow> ('a, 'r, 's) Operation
     \<Rightarrow> error option \<times> ('a, 'r, 's) Registry \<times> Entry list" where
  "Register r op =
     (case ops r (Name op) of
        Some existing \<Rightarrow>
          (Some (errorString (''operation '' @ Name op @ '' already registered'')), r, [])
      | None \<Rightarrow>
          (let r1 = r\<lparr> ops := (ops r)(Name op \<mapsto> op) \<rparr>;
               r2 = (if Type op = ReadOnly then r1\<lparr> readonly := readonly r1 @ [op] \<rparr>
                     else if Type op = Actionable then r1\<lparr> actionable := actionable r1 @ [op] \<rparr>
                     else r1)
           in (None, r2,
               [Entry DebugLevel ''Operation registered''
                  [(''name'', Text (Name op)), (''type'', Text (Type op)),
                   (''category'', Text (Category op))]])))"

text \<open>\<^verbatim>\<open>Get\<close> returns the operation and \<^verbatim>\<open>true\<close>, or \<^verbatim>\<open>false\<close>: an option.\<close>

definition Get :: "('a, 'r, 's) Registry \<Rightarrow> string \<Rightarrow> ('a, 'r, 's) Operation option" where
  "Get r name = ops r name"

definition ReadOnlyOps :: "('a, 'r, 's) Registry \<Rightarrow> ('a, 'r, 's) Operation list" where
  "ReadOnlyOps r = [] @ readonly r"

definition ActionableOps :: "('a, 'r, 's) Registry \<Rightarrow> ('a, 'r, 's) Operation list" where
  "ActionableOps r = [] @ actionable r"

section \<open>Package auth: the LDAP provider\<close>

record LDAPProvider =
  headerPrefix :: string
  groupMappings :: "string \<rightharpoonup> string list"
  defaultPermissions :: "Permission list"

definition NewLDAPProvider ::
  "string \<Rightarrow> (string \<rightharpoonup> string list) \<Rightarrow> string list \<Rightarrow> LDAPProvider" where
  "NewLDAPProvider headerPrefix' groupMappings' defaultPerms =
     \<lparr> headerPrefix = headerPrefix', groupMappings = groupMappings',
       defaultPermissions = defaultPerms \<rparr>"

text \<open>Indexing a \<^verbatim>\<open>map[string]string\<close>: a key that is absent yields the empty string.\<close>

definition index :: "(string \<rightharpoonup> string) \<Rightarrow> string \<Rightarrow> string" where
  "index headers k = (case headers k of None \<Rightarrow> [] | Some v \<Rightarrow> v)"

text \<open>\<^verbatim>\<open>strings.Split(s, sep)\<close> for a separator of one byte: the pieces of \<open>s\<close> between
  the separators, one more than there are separators. The result is never empty, so the
  second case of the inner match is never taken.\<close>

fun Split :: "string \<Rightarrow> char \<Rightarrow> string list" where
  "Split [] sep = [[]]"
| "Split (c # cs) sep =
     (if c = sep then [] # Split cs sep
      else (case Split cs sep of
              w # ws \<Rightarrow> (c # w) # ws
            | [] \<Rightarrow> [[c]]))"

text \<open>\<^verbatim>\<open>strings.TrimSpace\<close> on the ASCII white space (tab, line feed, vertical tab, form
  feed, carriage return, space). The white space of Unicode beyond ASCII, several bytes
  each in UTF-8, is left in place by this model.\<close>

definition isSpace :: "char \<Rightarrow> bool" where
  "isSpace c \<longleftrightarrow> c \<in> {CHR 0x09, CHR 0x0A, CHR 0x0B, CHR 0x0C, CHR 0x0D, CHR '' ''}"

definition TrimSpace :: "string \<Rightarrow> string" where
  "TrimSpace s = rev (dropWhile isSpace (rev (dropWhile isSpace s)))"

text \<open>
  The set \<^verbatim>\<open>permSet\<close> (a \<^verbatim>\<open>map[Permission]bool\<close> whose values are all true) as the
  list of its keys without repetition, in the order of first insertion. Go ranges over a
  map in an order that is not specified, so of the slice \<^verbatim>\<open>permissions\<close> only the set
  of its elements is meaningful.
\<close>

definition permSet_insert :: "Permission list \<Rightarrow> Permission \<Rightarrow> Permission list" where
  "permSet_insert permSet perm = (if perm \<in> set permSet then permSet else permSet @ [perm])"

fun map_groups ::
  "(string \<rightharpoonup> string list) \<Rightarrow> string list \<Rightarrow> Permission list \<Rightarrow> Permission list" where
  "map_groups mappings [] permSet = permSet"
| "map_groups mappings (g # groups) permSet =
     (case mappings g of
        Some mappedPerms \<Rightarrow> map_groups mappings groups (foldl permSet_insert permSet mappedPerms)
      | None \<Rightarrow> map_groups mappings groups permSet)"

definition Authenticate :: "LDAPProvider \<Rightarrow> (string \<rightharpoonup> string) \<Rightarrow> error + AuthContext" where
  "Authenticate p headers =
     (let username = index headers (headerPrefix p @ ''name'');
          username = (if username = [] then index headers (headerPrefix p @ ''username'')
                      else username)
      in if username = [] then Inl (errorString ''username not found in headers'')
         else
           (let groupsHeader = index headers (headerPrefix p @ ''groups'');
                groups = (if groupsHeader \<noteq> [] then map TrimSpace (Split groupsHeader CHR '','')
                          else []);
                permSet = map_groups (groupMappings p) groups [];
                permSet = (if length permSet = 0
                           then foldl permSet_insert permSet (defaultPermissions p)
                           else permSet)
            in Inr \<lparr> Username = username, Groups = groups, Permissions = permSet,
                     IsValidated = True, Source = ''LDAP'', Headers = headers \<rparr>))"

text \<open>The union, over a list of groups, of the permissions mapped to each group; a group
  without a mapping contributes nothing.\<close>

definition group_union :: "LDAPProvider \<Rightarrow> string list \<Rightarrow> Permission set" where
  "group_union p groups =
     (\<Union>g \<in> set groups. case groupMappings p g of None \<Rightarrow> {} | Some perms \<Rightarrow> set perms)"

text \<open>The provider that \<^verbatim>\<open>main\<close> configures: \<^verbatim>\<open>defaultGroupMappings()\<close> and the
  default permissions \<^verbatim>\<open>cluster:admin\<close> and \<^verbatim>\<open>service:admin\<close>.\<close>

definition defaultGroupMappings :: "string \<rightharpoonup> string list" where
  "defaultGroupMappings =
     [''ambari-admins'' \<mapsto>
        [''cluster:admin'', ''service:admin'', ''alert:admin'', ''config:modify'', ''host:manage''],
      ''hadoop-operators'' \<mapsto>
        [''cluster:operate'', ''service:operate'', ''service:restart'', ''alert:manage''],
      ''data-engineers'' \<mapsto>
        [''cluster:view'', ''service:view'', ''service:operate'', ''config:view''],
      ''bigdata-viewers'' \<mapsto>
        [''cluster:view'', ''service:view'', ''alert:view'', ''config:view'', ''host:view'']]"

definition ldapProvider :: LDAPProvider where
  "ldapProvider =
     NewLDAPProvider ''x-remote-'' defaultGroupMappings [''cluster:admin'', ''service:admin'']"

section \<open>Package certs: the collaborators\<close>

subsection \<open>Keys, certificates and the crypto library\<close>

text \<open>\<^verbatim>\<open>rsa.PublicKey\<close> and \<^verbatim>\<open>rsa.PrivateKey\<close>; the fields carry the prefix
  \<open>rsa_\<close> here.\<close>

record PublicKey =
  rsa_N :: nat
  rsa_E :: nat

record PrivateKey =
  PublicKey :: PublicKey
  rsa_D :: nat
  rsa_Primes :: "nat list"

text \<open>\<^verbatim>\<open>net.IP\<close>, by the address it denotes.\<close>

datatype IP = IPv4 nat nat nat nat | IPv6 "nat list"

datatype ExtKeyUsage =
    ExtKeyUsageAny
  | ExtKeyUsageServerAuth
  | ExtKeyUsageClientAuth
  | ExtKeyUsageCodeSigning
  | ExtKeyUsageEmailProtection
  | ExtKeyUsageIPSECEndSystem
  | ExtKeyUsageIPSECTunnel
  | ExtKeyUsageIPSECUser
  | ExtKeyUsageTimeStamping
  | ExtKeyUsageOCSPSigning
  | ExtKeyUsageMicrosoftServerGatedCrypto
  | ExtKeyUsageNetscapeServerGatedCrypto
  | ExtKeyUsageMicrosoftCommercialCodeSigning
  | ExtKeyUsageMicrosoftKernelCodeSigning

text \<open>\<^verbatim>\<open>x509.KeyUsage\<close> is a bit set in an \<^verbatim>\<open>int\<close>: \<^verbatim>\<open>1 << iota\<close>.\<close>

definition KeyUsageDigitalSignature :: int where "KeyUsageDigitalSignature = 1"
definition KeyUsageContentCommitment :: int where "KeyUsageContentCommitment = 2"
definition KeyUsageKeyEncipherment :: int where "KeyUsageKeyEncipherment = 4"
definition KeyUsageDataEncipherment :: int where "KeyUsageDataEncipherment = 8"
definition KeyUsageKeyAgreement :: int where "KeyUsageKeyAgreement = 16"
definition KeyUsageCertSign :: int where "KeyUsageCertSign = 32"
definition KeyUsageCRLSign :: int where "KeyUsageCRLSign = 64"

lemmas KeyUsage_defs =
  KeyUsageDigitalSignature_def KeyUsageContentCommitment_def KeyUsageKeyEncipherment_def
  KeyUsageDataEncipherment_def KeyUsageKeyAgreement_def KeyUsageCertSign_def KeyUsageCRLSign_def

record pkix_Name =
  Organization :: "string list"
  Country :: "string list"
  CommonName :: string

text \<open>\<^verbatim>\<open>x509.Certificate\<close>: the fields that this package sets in a template. A field
  that a template does not mention has Go's zero value.\<close>

record x509_Certificate =
  SerialNumber :: int
  Subject :: pkix_Name
  NotBefore :: Time
  NotAfter :: Time
  KeyUsage :: int
  ExtKeyUsage :: "ExtKeyUsage list"
  BasicConstraintsValid :: bool
  IsCA :: bool
  MaxPathLen :: int
  DNSNames :: "string list"
  IPAddresses :: "IP list"

text \<open>\<^verbatim>\<open>pem.Block\<close>; its fields \<^verbatim>\<open>Type\<close> and \<^verbatim>\<open>Bytes\<close> carry the prefix
  \<open>PEM_\<close> here.\<close>

record 'b Block =
  PEM_Type :: string
  PEM_Bytes :: 'b

text \<open>
  The functions of \<^verbatim>\<open>crypto/rsa\<close>, \<^verbatim>\<open>crypto/rand\<close>, \<^verbatim>\<open>crypto/x509\<close> and
  \<^verbatim>\<open>encoding/pem\<close> that the package calls. They are parameters of the model; \<open>'b\<close>
  is the type of byte strings, which this package passes on and never inspects. The
  randomness of the first two is part of the parameter: each function of the package
  calls them once. Of \<^verbatim>\<open>pem.Decode\<close> the model keeps the block (or nil), the
  package drops the rest of the input.
\<close>

record 'b crypto =
  rsa_GenerateKey :: "int \<Rightarrow> error + PrivateKey"
  rand_Int :: "int \<Rightarrow> error + int"
  x509_CreateCertificate ::
    "x509_Certificate \<Rightarrow> x509_Certificate \<Rightarrow> PublicKey \<Rightarrow> PrivateKey \<Rightarrow> error + 'b"
  x509_ParseCertificate :: "'b \<Rightarrow> error + x509_Certificate"
  x509_MarshalPKCS1PrivateKey :: "PrivateKey \<Rightarrow> 'b"
  x509_ParsePKCS1PrivateKey :: "'b \<Rightarrow> error + PrivateKey"
  pem_EncodeToMemory :: "'b Block \<Rightarrow> 'b"
  pem_Decode :: "'b \<Rightarrow> 'b Block option"

text \<open>\<^verbatim>\<open>t.Add(d)\<close> moves both readings of an instant by \<open>d\<close> nanoseconds.\<close>

definition time_Add :: "Time \<Rightarrow> int \<Rightarrow> Time" where
  "time_Add t d = \<lparr> wall_ns = wall_ns t + d, mono_ns = mono_ns t + d \<rparr>"

text \<open>\<^verbatim>\<open>time.Duration(validDays) * 24 * time.Hour\<close>: a product of \<^verbatim>\<open>int64\<close>
  nanoseconds, which wraps around.\<close>

definition days_Duration :: "int \<Rightarrow> int" where
  "days_Duration validDays = sint ((word_of_int validDays :: 64 word) * 24 * 3600000000000)"

text \<open>The two clock readings of a template: the \<^verbatim>\<open>time.Now()\<close> of
  \<^verbatim>\<open>NotBefore\<close> and the \<^verbatim>\<open>time.Now()\<close> of \<^verbatim>\<open>NotAfter\<close>.\<close>

record CertClock =
  now_NotBefore :: Time
  now_NotAfter :: Time

subsection \<open>The file system\<close>

text \<open>
  Files with their contents and permission bits, the directories, and the umask of the
  process. Paths are clean slash-separated names, as \<^verbatim>\<open>filepath.Join\<close> builds them
  (no empty, \<^verbatim>\<open>.\<close> or \<^verbatim>\<open>..\<close> element, no trailing slash); the root and the working
  directory always exist. The process may read and write every file; the model has no
  owners.
\<close>

type_synonym path = string
type_synonym FileMode = "32 word"

record 'b File =
  contents :: 'b
  mode :: FileMode

record 'b FS =
  files :: "path \<rightharpoonup> 'b File"
  dirs :: "path set"
  umask :: FileMode

text \<open>\<^verbatim>\<open>filepath.Dir\<close> on a clean path: the path without its last element.\<close>

definition filepath_Dir :: "path \<Rightarrow> path" where
  "filepath_Dir p =
     (let dir = rev (drop 1 (dropWhile (\<lambda>c. c \<noteq> CHR ''/'') (rev p)))
      in if CHR ''/'' \<notin> set p then ''.''
         else if dir = [] then ''/''
         else dir)"

text \<open>\<^verbatim>\<open>filepath.Join\<close> on clean elements: the elements that are not empty, separated
  by a slash.\<close>

fun join_slash :: "string list \<Rightarrow> string" where
  "join_slash [] = []"
| "join_slash [x] = x"
| "join_slash (x # y # ys) = x @ ''/'' @ join_slash (y # ys)"

definition filepath_Join :: "string list \<Rightarrow> path" where
  "filepath_Join elems = join_slash (filter (\<lambda>e. e \<noteq> []) elems)"

text \<open>The directories above a path: its proper prefixes that end before a slash.\<close>

definition parents :: "path \<Rightarrow> path list" where
  "parents p = map (\<lambda>i. take i p) (filter (\<lambda>i. p ! i = CHR ''/'') [1..<length p])"

definition dir_exists :: "'b FS \<Rightarrow> path \<Rightarrow> bool" where
  "dir_exists fs d \<longleftrightarrow> d = ''.'' \<or> d = ''/'' \<or> d \<in> dirs fs"

definition os_ReadFile :: "'b FS \<Rightarrow> path \<Rightarrow> error + 'b" where
  "os_ReadFile fs name =
     (if dir_exists fs name then Inl (PathError ''read'' name ''is a directory'')
      else case files fs name of
             None \<Rightarrow> Inl (PathError ''open'' name ''no such file or directory'')
           | Some f \<Rightarrow> Inr (contents f))"

text \<open>\<^verbatim>\<open>os.MkdirAll\<close>: creates the directory and the missing directories above it;
  fails when one of these names is a file.\<close>

definition os_MkdirAll :: "'b FS \<Rightarrow> path \<Rightarrow> FileMode \<Rightarrow> error + 'b FS" where
  "os_MkdirAll fs p perm =
     (case filter (\<lambda>d. d \<in> dom (files fs)) (parents p @ [p]) of
        d # ds \<Rightarrow> Inl (PathError ''mkdir'' d ''not a directory'')
      | [] \<Rightarrow> Inr (fs\<lparr> dirs := dirs fs \<union> set (parents p @ [p]) \<rparr>))"

text \<open>
  \<^verbatim>\<open>os.WriteFile(name, data, perm)\<close> opens the file with
  \<^verbatim>\<open>O_WRONLY|O_CREATE|O_TRUNC\<close>. The package \<^verbatim>\<open>os\<close> documents: if the file does
  not exist, WriteFile creates it with permissions perm (before umask); otherwise
  WriteFile truncates it before writing, without changing permissions.
\<close>

definition os_WriteFile :: "'b FS \<Rightarrow> path \<Rightarrow> 'b \<Rightarrow> FileMode \<Rightarrow> error + 'b FS" where
  "os_WriteFile fs name data perm =
     (if dir_exists fs name then Inl (PathError ''open'' name ''is a directory'')
      else if \<not> dir_exists fs (filepath_Dir name)
        then Inl (PathError ''open'' name ''no such file or directory'')
      else case files fs name of
             Some f \<Rightarrow> Inr (fs\<lparr> files := (files fs)(name \<mapsto> f\<lparr> contents := data \<rparr>) \<rparr>)
           | None \<Rightarrow>
               Inr (fs\<lparr> files := (files fs)(name \<mapsto>
                          \<lparr> contents = data, mode = perm AND NOT (umask fs) \<rparr>) \<rparr>))"

section \<open>Package certs: generation, persistence and loading\<close>

record CAConfig =
  Organization :: string
  Country :: string
  ValidDays :: int
  KeySize :: int

record CertConfig =
  CommonName :: string
  Organization :: string
  Country :: string
  ValidDays :: int
  KeySize :: int
  DNSNames :: "string list"
  IPAddresses :: "IP list"
  IsServer :: bool

record 'b CAResult =
  Certificate :: x509_Certificate
  PrivateKey :: PrivateKey
  CertPEM :: 'b
  KeyPEM :: 'b

record 'b CertResult =
  Certificate :: x509_Certificate
  PrivateKey :: PrivateKey
  CertPEM :: 'b
  KeyPEM :: 'b

text \<open>The template that \<^verbatim>\<open>GenerateCA\<close> builds.\<close>

definition GenerateCA_template :: "CAConfig \<Rightarrow> int \<Rightarrow> CertClock \<Rightarrow> x509_Certificate" where
  "GenerateCA_template config serialNumber clk =
     \<lparr> SerialNumber = serialNumber,
       Subject = \<lparr> pkix_Name.Organization = [CAConfig.Organization config],
                   pkix_Name.Country = [CAConfig.Country config],
                   pkix_Name.CommonName = ''Ambari MCP Server CA'' \<rparr>,
       NotBefore = now_NotBefore clk,
       NotAfter = time_Add (now_NotAfter clk) (days_Duration (CAConfig.ValidDays config)),
       KeyUsage = KeyUsageCertSign OR KeyUsageCRLSign OR KeyUsageDigitalSignature,
       ExtKeyUsage = [ExtKeyUsageServerAuth, ExtKeyUsageClientAuth],
       BasicConstraintsValid = True,
       IsCA = True,
       MaxPathLen = 1,
       x509_Certificate.DNSNames = [],
       x509_Certificate.IPAddresses = [] \<rparr>"

definition GenerateCA :: "'b crypto \<Rightarrow> CertClock \<Rightarrow> CAConfig \<Rightarrow> error + 'b CAResult" where
  "GenerateCA lib clk config =
     (case rsa_GenerateKey lib (CAConfig.KeySize config) of
        Inl err \<Rightarrow> Inl (errorString (''failed to generate CA private key: '' @ Error err))
      | Inr privateKey \<Rightarrow>
     (case rand_Int lib (2 ^ 128) of
        Inl err \<Rightarrow> Inl (errorString (''failed to generate serial number: '' @ Error err))
      | Inr serialNumber \<Rightarrow>
     (let template = GenerateCA_template config serialNumber clk in
     (case x509_CreateCertificate lib template template (PublicKey privateKey) privateKey of
        Inl err \<Rightarrow> Inl (errorString (''failed to create CA certificate: '' @ Error err))
      | Inr certDER \<Rightarrow>
     (case x509_ParseCertificate lib certDER of
        Inl err \<Rightarrow> Inl (errorString (''failed to parse CA certificate: '' @ Error err))
      | Inr cert \<Rightarrow>
          Inr \<lparr> CAResult.Certificate = cert,
                CAResult.PrivateKey = privateKey,
                CAResult.CertPEM =
                  pem_EncodeToMemory lib \<lparr> PEM_Type = ''CERTIFICATE'', PEM_Bytes = certDER \<rparr>,
                CAResult.KeyPEM =
                  pem_EncodeToMemory lib
                    \<lparr> PEM_Type = ''RSA PRIVATE KEY'',
                      PEM_Bytes = x509_MarshalPKCS1PrivateKey lib privateKey \<rparr> \<rparr>)))))"

text \<open>The template that \<^verbatim>\<open>GenerateCertificate\<close> builds: the literal, then the
  assignments of the branch on \<^verbatim>\<open>config.IsServer\<close>.\<close>

definition GenerateCertificate_template ::
  "CertConfig \<Rightarrow> int \<Rightarrow> CertClock \<Rightarrow> x509_Certificate" where
  "GenerateCertificate_template config serialNumber clk =
     (let template =
            \<lparr> SerialNumber = serialNumber,
              Subject = \<lparr> pkix_Name.Organization = [CertConfig.Organization config],
                          pkix_Name.Country = [CertConfig.Country config],
                          pkix_Name.CommonName = CertConfig.CommonName config \<rparr>,
              NotBefore = now_NotBefore clk,
              NotAfter = time_Add (now_NotAfter clk) (days_Duration (CertConfig.ValidDays config)),
              KeyUsage = KeyUsageKeyEncipherment OR KeyUsageDigitalSignature,
              ExtKeyUsage = [],
              BasicConstraintsValid = True,
              IsCA = False,
              MaxPathLen = 0,
              x509_Certificate.DNSNames = [],
              x509_Certificate.IPAddresses = [] \<rparr>
      in if IsServer config
         then template\<lparr> ExtKeyUsage := [ExtKeyUsageServerAuth],
                        x509_Certificate.DNSNames := CertConfig.DNSNames config,
                        x509_Certificate.IPAddresses := CertConfig.IPAddresses config \<rparr>
         else template\<lparr> ExtKeyUsage := [ExtKeyUsageClientAuth] \<rparr>)"

text \<open>\<^verbatim>\<open>GenerateCertificate\<close>. The CA is passed as the record: both callers pass the
  result of a \<^verbatim>\<open>LoadCA\<close> that succeeded.\<close>

definition GenerateCertificate ::
  "'b crypto \<Rightarrow> CertClock \<Rightarrow> CertConfig \<Rightarrow> 'b CAResult \<Rightarrow> error + 'b CertResult" where
  "GenerateCertificate lib clk config ca =
     (case rsa_GenerateKey lib (CertConfig.KeySize config) of
        Inl err \<Rightarrow> Inl (errorString (''failed to generate private key: '' @ Error err))
      | Inr privateKey \<Rightarrow>
     (case rand_Int lib (2 ^ 128) of
        Inl err \<Rightarrow> Inl (errorString (''failed to generate serial number: '' @ Error err))
      | Inr serialNumber \<Rightarrow>
     (let template = GenerateCertificate_template config serialNumber clk in
     (case x509_CreateCertificate lib template (CAResult.Certificate ca)
             (PublicKey privateKey) (CAResult.PrivateKey ca) of
        Inl err \<Rightarrow> Inl (errorString (''failed to create certificate: '' @ Error err))
      | Inr certDER \<Rightarrow>
     (case x509_ParseCertificate lib certDER of
        Inl err \<Rightarrow> Inl (errorString (''failed to parse certificate: '' @ Error err))
      | Inr cert \<Rightarrow>
          Inr \<lparr> CertResult.Certificate = cert,
                CertResult.PrivateKey = privateKey,
                CertResult.CertPEM =
                  pem_EncodeToMemory lib \<lparr> PEM_Type = ''CERTIFICATE'', PEM_Bytes = certDER \<rparr>,
                CertResult.KeyPEM =
                  pem_EncodeToMemory lib
                    \<lparr> PEM_Type = ''RSA PRIVATE KEY'',
                      PEM_Bytes = x509_MarshalPKCS1PrivateKey lib privateKey \<rparr> \<rparr>)))))"

text \<open>The permission bits \<^verbatim>\<open>0755\<close>, \<^verbatim>\<open>0644\<close> and \<^verbatim>\<open>0600\<close>, and the bits of
  group and others \<^verbatim>\<open>0077\<close>.\<close>

definition perm_0755 :: FileMode where "perm_0755 = 493"
definition perm_0644 :: FileMode where "perm_0644 = 420"
definition perm_0600 :: FileMode where "perm_0600 = 384"
definition perm_0077 :: FileMode where "perm_0077 = 63"

text \<open>The two persistence functions return their error (or none) and the file system
  afterwards.\<close>

definition SaveCAToFiles :: "'b FS \<Rightarrow> 'b CAResult \<Rightarrow> path \<Rightarrow> path \<Rightarrow> error option \<times> 'b FS" where
  "SaveCAToFiles fs ca certPath keyPath =
     (let dir = filepath_Dir certPath in
     (case os_MkdirAll fs dir perm_0755 of
        Inl err \<Rightarrow> (Some (errorString (''failed to create directory: '' @ Error err)), fs)
      | Inr fs1 \<Rightarrow>
     (case os_WriteFile fs1 certPath (CAResult.CertPEM ca) perm_0644 of
        Inl err \<Rightarrow> (Some (errorString (''failed to write CA certificate: '' @ Error err)), fs1)
      | Inr fs2 \<Rightarrow>
     (case os_WriteFile fs2 keyPath (CAResult.KeyPEM ca) perm_0600 of
        Inl err \<Rightarrow> (Some (errorString (''failed to write CA private key: '' @ Error err)), fs2)
      | Inr fs3 \<Rightarrow> (None, fs3)))))"

definition SaveCertToFiles ::
  "'b FS \<Rightarrow> 'b CertResult \<Rightarrow> path \<Rightarrow> path \<Rightarrow> error option \<times> 'b FS" where
  "SaveCertToFiles fs cert certPath keyPath =
     (let dir = filepath_Dir certPath in
     (case os_MkdirAll fs dir perm_0755 of
        Inl err \<Rightarrow> (Some (errorString (''failed to create directory: '' @ Error err)), fs)
      | Inr fs1 \<Rightarrow>
     (case os_WriteFile fs1 certPath (CertResult.CertPEM cert) perm_0644 of
        Inl err \<Rightarrow> (Some (errorString (''failed to write certificate: '' @ Error err)), fs1)
      | Inr fs2 \<Rightarrow>
     (case os_WriteFile fs2 keyPath (CertResult.KeyPEM cert) perm_0600 of
        Inl err \<Rightarrow> (Some (errorString (''failed to write private key: '' @ Error err)), fs2)
      | Inr fs3 \<Rightarrow> (None, fs3)))))"

definition LoadCA :: "'b crypto \<Rightarrow> 'b FS \<Rightarrow> path \<Rightarrow> path \<Rightarrow> error + 'b CAResult" where
  "LoadCA lib fs certPath keyPath =
     (case os_ReadFile fs certPath of
        Inl err \<Rightarrow> Inl (errorString (''failed to read CA certificate: '' @ Error err))
      | Inr certPEM \<Rightarrow>
     (case pem_Decode lib certPEM of
        None \<Rightarrow> Inl (errorString ''failed to decode CA certificate PEM'')
      | Some block \<Rightarrow>
     (if PEM_Type block \<noteq> ''CERTIFICATE''
      then Inl (errorString ''failed to decode CA certificate PEM'')
      else
     (case x509_ParseCertificate lib (PEM_Bytes block) of
        Inl err \<Rightarrow> Inl (errorString (''failed to parse CA certificate: '' @ Error err))
      | Inr cert \<Rightarrow>
     (case os_ReadFile fs keyPath of
        Inl err \<Rightarrow> Inl (errorString (''failed to read CA private key: '' @ Error err))
      | Inr keyPEM \<Rightarrow>
     (case pem_Decode lib keyPEM of
        None \<Rightarrow> Inl (errorString ''failed to decode CA private key PEM'')
      | Some keyBlock \<Rightarrow>
     (if PEM_Type keyBlock \<noteq> ''RSA PRIVATE KEY''
      then Inl (errorString ''failed to decode CA private key PEM'')
      else
     (case x509_ParsePKCS1PrivateKey lib (PEM_Bytes keyBlock) of
        Inl err \<Rightarrow> Inl (errorString (''failed to parse CA private key: '' @ Error err))
      | Inr privateKey \<Rightarrow>
          Inr \<lparr> CAResult.Certificate = cert,
                CAResult.PrivateKey = privateKey,
                CAResult.CertPEM = certPEM,
                CAResult.KeyPEM = keyPEM \<rparr>))))))))"

subsection \<open>The certificate manager\<close>

record CertManager =
  certsDir :: string
  caCertPath :: string
  caKeyPath :: string

definition NewCertManager :: "string \<Rightarrow> CertManager" where
  "NewCertManager certsDir' =
     \<lparr> certsDir = certsDir',
       caCertPath = filepath_Join [certsDir', ''ca'', ''ca-cert.pem''],
       caKeyPath = filepath_Join [certsDir', ''ca'', ''ca-key.pem''] \<rparr>"

text \<open>\<^verbatim>\<open>SignClientCert\<close> returns its result and what it logged.\<close>

definition SignClientCert ::
  "'b crypto \<Rightarrow> 'b FS \<Rightarrow> CertClock \<Rightarrow> CertManager \<Rightarrow> CertConfig
     \<Rightarrow> (error + 'b CertResult) \<times> Entry list" where
  "SignClientCert lib fs clk cm config =
     (let signing = Entry InfoLevel ''Signing client certificate with CA''
                      [(''common_name'', Text (CertConfig.CommonName config))] in
     (case LoadCA lib fs (caCertPath cm) (caKeyPath cm) of
        Inl err \<Rightarrow> (Inl (errorString (''failed to load CA: '' @ Error err)), [signing])
      | Inr ca \<Rightarrow>
     (let config = config\<lparr> IsServer := False \<rparr> in
     (case GenerateCertificate lib clk config ca of
        Inl err \<Rightarrow>
          (Inl (errorString (''failed to generate client certificate: '' @ Error err)), [signing])
      | Inr cert \<Rightarrow>
          (Inr cert,
           [signing,
            Entry InfoLevel ''Successfully signed client certificate''
              [(''common_name'', Text (CertConfig.CommonName config)),
               (''valid_days'', Number (CertConfig.ValidDays config))]])))))"

text \<open>\<^verbatim>\<open>GenerateClientCert\<close> returns its error (or none), the file system afterwards
  and what it logged.\<close>

definition GenerateClientCert ::
  "'b crypto \<Rightarrow> 'b FS \<Rightarrow> CertClock \<Rightarrow> CertManager \<Rightarrow> string \<Rightarrow> string \<Rightarrow> int \<Rightarrow> int
     \<Rightarrow> error option \<times> 'b FS \<times> Entry list" where
  "GenerateClientCert lib fs clk cm commonName outputDir validDays keySize =
     (let generating = Entry InfoLevel ''Generating CA-signed client certificate''
                         [(''common_name'', Text commonName)] in
     (case LoadCA lib fs (caCertPath cm) (caKeyPath cm) of
        Inl err \<Rightarrow> (Some (errorString (''failed to load CA: '' @ Error err)), fs, [generating])
      | Inr ca \<Rightarrow>
     (let config = \<lparr> CommonName = commonName,
                     Organization = ''Ambari MCP Client'',
                     Country = ''US'',
                     ValidDays = validDays,
                     KeySize = keySize,
                     DNSNames = [],
                     IPAddresses = [],
                     IsServer = False \<rparr> in
     (case GenerateCertificate lib clk config ca of
        Inl err \<Rightarrow>
          (Some (errorString (''failed to generate client certificate: '' @ Error err)), fs,
           [generating])
      | Inr cert \<Rightarrow>
     (let certPath = filepath_Join [outputDir, commonName @ ''-cert.pem''];
          keyPath = filepath_Join [outputDir, commonName @ ''-key.pem''] in
     (case SaveCertToFiles fs cert certPath keyPath of
        (Some err, fs') \<Rightarrow>
          (Some (errorString (''failed to save client certificate: '' @ Error err)), fs',
           [generating])
      | (None, fs') \<Rightarrow>
          (None, fs',
           [generating,
            Entry InfoLevel ''Successfully generated and saved client certificate''
              [(''common_name'', Text commonName), (''cert_path'', Text certPath),
               (''key_path'', Text keyPath)]])))))))"

text \<open>\<^verbatim>\<open>CAExists\<close>: \<^verbatim>\<open>os.Stat\<close> succeeds on both paths.\<close>

definition CAExists :: "'b FS \<Rightarrow> CertManager \<Rightarrow> bool" where
  "CAExists fs cm \<longleftrightarrow>
     (dir_exists fs (caCertPath cm) \<or> caCertPath cm \<in> dom (files fs))
     \<and> (dir_exists fs (caKeyPath cm) \<or> caKeyPath cm \<in> dom (files fs))"

text \<open>What the claims about the issued certificates need of \<^verbatim>\<open>crypto/x509\<close>: a
  certificate parsed from the encoding that \<^verbatim>\<open>CreateCertificate\<close> made of a template
  has the template's extended key usages, DNS names and IP addresses.\<close>

definition x509_keeps_usage_and_names :: "'b crypto \<Rightarrow> bool" where
  "x509_keeps_usage_and_names lib \<longleftrightarrow>
     (\<forall>template parent pub priv certDER cert.
        x509_CreateCertificate lib template parent pub priv = Inr certDER
        \<longrightarrow> x509_ParseCertificate lib certDER = Inr cert
        \<longrightarrow> ExtKeyUsage cert = ExtKeyUsage template
            \<and> x509_Certificate.DNSNames cert = x509_Certificate.DNSNames template
            \<and> x509_Certificate.IPAddresses cert = x509_Certificate.IPAddresses template)"

section \<open>Sample inputs\<close>

subsection \<open>An idealised crypto library\<close>

text \<open>Byte strings by what they encode: the DER form of a certificate or of a key, a PEM
  block around a byte string, or other text.\<close>

datatype bytes =
    DER_Certificate x509_Certificate
  | DER_PrivateKey PrivateKey
  | PEM string bytes
  | Garbage string

text \<open>The times of a certificate are encoded to the whole second, without the monotonic
  reading.\<close>

definition whole_second :: "Time \<Rightarrow> Time" where
  "whole_second t = \<lparr> wall_ns = (wall_ns t div 1000000000) * 1000000000, mono_ns = 0 \<rparr>"

definition sample_key :: PrivateKey where
  "sample_key =
     \<lparr> PublicKey = \<lparr> rsa_N = 3233, rsa_E = 17 \<rparr>, rsa_D = 2753, rsa_Primes = [61, 53] \<rparr>"

text \<open>A library that refuses keys below 1024 bits, draws the serial number 42, and
  encodes a template as it stands, with its two times cut to the whole second.\<close>

definition ideal_crypto :: "bytes crypto" where
  "ideal_crypto =
     \<lparr> rsa_GenerateKey =
         (\<lambda>bits. if bits < 1024 then Inl (errorString ''rsa: key too small'')
                  else Inr sample_key),
       rand_Int = (\<lambda>max. Inr 42),
       x509_CreateCertificate =
         (\<lambda>template parent pub priv.
            Inr (DER_Certificate
                   (template\<lparr> NotBefore := whole_second (NotBefore template),
                               NotAfter := whole_second (NotAfter template) \<rparr>))),
       x509_ParseCertificate =
         (\<lambda>b. case b of DER_Certificate cert \<Rightarrow> Inr cert
                 | _ \<Rightarrow> Inl (errorString ''x509: malformed certificate'')),
       x509_MarshalPKCS1PrivateKey = DER_PrivateKey,
       x509_ParsePKCS1PrivateKey =
         (\<lambda>b. case b of DER_PrivateKey k \<Rightarrow> Inr k
                 | _ \<Rightarrow> Inl (errorString ''x509: failed to parse private key'')),
       pem_EncodeToMemory = (\<lambda>block. PEM (PEM_Type block) (PEM_Bytes block)),
       pem_Decode =
         (\<lambda>b. case b of PEM t d \<Rightarrow> Some \<lparr> PEM_Type = t, PEM_Bytes = d \<rparr>
                 | _ \<Rightarrow> None) \<rparr>"

subsection \<open>Certificate requests\<close>

text \<open>Two clock readings one microsecond apart, on either side of the second
  1700000001.\<close>

definition boundary_clock :: CertClock where
  "boundary_clock =
     \<lparr> now_NotBefore = \<lparr> wall_ns = 1700000000999999500, mono_ns = 7000000000 \<rparr>,
       now_NotAfter = \<lparr> wall_ns = 1700000001000000500, mono_ns = 7000001000 \<rparr> \<rparr>"

definition sample_CAConfig :: CAConfig where
  "sample_CAConfig =
     \<lparr> CAConfig.Organization = ''Ambari MCP'', CAConfig.Country = ''US'',
       CAConfig.ValidDays = 365, CAConfig.KeySize = 2048 \<rparr>"

definition server_config :: CertConfig where
  "server_config =
     \<lparr> CommonName = ''localhost'', Organization = ''Ambari MCP Server'', Country = ''US'',
       ValidDays = 365, KeySize = 2048,
       DNSNames = [''localhost'', ''svc.example''], IPAddresses = [IPv4 127 0 0 1],
       IsServer = True \<rparr>"

definition client_config :: CertConfig where
  "client_config =
     \<lparr> CommonName = ''mcp-client'', Organization = ''Ambari MCP Client'', Country = ''US'',
       ValidDays = 365, KeySize = 2048,
       DNSNames = [], IPAddresses = [],
       IsServer = False \<rparr>"

text \<open>A CA as \<^verbatim>\<open>GenerateCA\<close> returns it with this library.\<close>

definition sample_CA_certificate :: x509_Certificate where
  "sample_CA_certificate =
     (GenerateCA_template sample_CAConfig 42 boundary_clock)
       \<lparr> NotBefore := \<lparr> wall_ns = 1700000000000000000, mono_ns = 0 \<rparr>,
         NotAfter := \<lparr> wall_ns = 1731536001000000000, mono_ns = 0 \<rparr> \<rparr>"

definition sample_CA :: "bytes CAResult" where
  "sample_CA =
     \<lparr> CAResult.Certificate = sample_CA_certificate,
       CAResult.PrivateKey = sample_key,
       CAResult.CertPEM = PEM ''CERTIFICATE'' (DER_Certificate sample_CA_certificate),
       CAResult.KeyPEM = PEM ''RSA PRIVATE KEY'' (DER_PrivateKey sample_key) \<rparr>"

subsection \<open>File systems\<close>

text \<open>The umask \<^verbatim>\<open>022\<close>.\<close>

definition umask_022 :: FileMode where "umask_022 = 18"

definition empty_fs :: "bytes FS" where
  "empty_fs = \<lparr> files = Map.empty, dirs = {}, umask = umask_022 \<rparr>"

text \<open>A file system in which the CA has been saved.\<close>

definition ca_fs :: "bytes FS" where
  "ca_fs =
     \<lparr> files = [''certs/ca/ca-cert.pem'' \<mapsto>
                   \<lparr> contents = CAResult.CertPEM sample_CA, mode = perm_0644 \<rparr>,
                 ''certs/ca/ca-key.pem'' \<mapsto>
                   \<lparr> contents = CAResult.KeyPEM sample_CA, mode = perm_0600 \<rparr>],
       dirs = {''certs'', ''certs/ca''},
       umask = umask_022 \<rparr>"

text \<open>A file system whose CA certificate file holds no PEM data, and one whose CA key
  file holds a block of the type \<^verbatim>\<open>CERTIFICATE\<close>.\<close>

definition garbled_fs :: "bytes FS" where
  "garbled_fs =
     ca_fs\<lparr> files := (files ca_fs)(''certs/ca/ca-cert.pem'' \<mapsto>
               \<lparr> contents = Garbage ''not a certificate'', mode = perm_0644 \<rparr>) \<rparr>"

definition swapped_fs :: "bytes FS" where
  "swapped_fs =
     ca_fs\<lparr> files := (files ca_fs)(''certs/ca/ca-key.pem'' \<mapsto>
               \<lparr> contents = CAResult.CertPEM sample_CA, mode = perm_0600 \<rparr>) \<rparr>"

text \<open>A file system in which a key file of an earlier installation is left, readable by
  everyone.\<close>

definition stale_fs :: "bytes FS" where
  "stale_fs =
     \<lparr> files = [''certs/ca/ca-key.pem'' \<mapsto>
                   \<lparr> contents = Garbage ''old key'', mode = perm_0644 \<rparr>],
       dirs = {''certs'', ''certs/ca''},
       umask = umask_022 \<rparr>"

text \<open>A file system in which the CA certificate is left and the CA key is gone.\<close>

definition keyless_fs :: "bytes FS" where
  "keyless_fs =
     \<lparr> files = [''certs/ca/ca-cert.pem'' \<mapsto>
                   \<lparr> contents = CAResult.CertPEM sample_CA, mode = perm_0644 \<rparr>],
       dirs = {''certs'', ''certs/ca''},
       umask = umask_022 \<rparr>"

text \<open>A request for a client certificate with a key of 512 bits.\<close>

definition weak_config :: CertConfig where
  "weak_config = client_config\<lparr> KeySize := 512 \<rparr>"

text \<open>The client leaf that \<^verbatim>\<open>GenerateCertificate\<close> returns with this library, and a
  file system in which an earlier key file of that client is left, readable by
  everyone.\<close>

definition sample_leaf_certificate :: x509_Certificate where
  "sample_leaf_certificate =
     (GenerateCertificate_template client_config 42 boundary_clock)
       \<lparr> NotBefore := \<lparr> wall_ns = 1700000000000000000, mono_ns = 0 \<rparr>,
         NotAfter := \<lparr> wall_ns = 1731536001000000000, mono_ns = 0 \<rparr> \<rparr>"

definition sample_leaf :: "bytes CertResult" where
  "sample_leaf =
     \<lparr> Certificate = sample_leaf_certificate,
       PrivateKey = sample_key,
       CertPEM = PEM ''CERTIFICATE'' (DER_Certificate sample_leaf_certificate),
       KeyPEM = PEM ''RSA PRIVATE KEY'' (DER_PrivateKey sample_key) \<rparr>"

definition stale_client_fs :: "bytes FS" where
  "stale_client_fs =
     \<lparr> files = [''out/mcp-client-key.pem'' \<mapsto>
                   \<lparr> contents = Garbage ''old key'', mode = perm_0644 \<rparr>],
       dirs = {''out''},
       umask = umask_022 \<rparr>"

subsection \<open>Requests and operations\<close>

text \<open>Requests with the headers of an operator and of a caller whose only group has no
  mapping.\<close>

definition operator_headers :: "string \<rightharpoonup> string" where
  "operator_headers =
     [''x-remote-name'' \<mapsto> ''dana'',
      ''x-remote-groups'' \<mapsto> ''hadoop-operators, data-engineers'']"

definition intern_headers :: "string \<rightharpoonup> string" where
  "intern_headers = [''x-remote-username'' \<mapsto> ''carol'', ''x-remote-groups'' \<mapsto> ''interns'']"

text \<open>A second operation under the name of \<^verbatim>\<open>StartService\<close>.\<close>

definition StartService_again :: "(args, string, nat) Operation" where
  "StartService_again =
     (StartService counting_delegate) \<lparr> Description := ''Another start'', Type := ReadOnly \<rparr>"

section \<open>Properties of the Executor\<close>

subsection \<open>Permission checks\<close>

lemma HasPermission_loop_iff: "HasPermission_loop ps perm \<longleftrightarrow> perm \<in> set ps"
  by (induction ps) auto

lemma HasPermission_iff: "HasPermission a perm \<longleftrightarrow> perm \<in> set (Permissions a)"
  by (simp add: HasPermission_def HasPermission_loop_iff)

lemma HasAllPermissions_iff: "HasAllPermissions a perms \<longleftrightarrow> set perms \<subseteq> set (Permissions a)"
  by (induction perms) (auto simp: HasPermission_iff)

lemma missing_permissions_Nil_iff:
  "missing_permissions a required = [] \<longleftrightarrow> HasAllPermissions a required"
  by (auto simp: missing_permissions_def HasAllPermissions_iff HasPermission_iff filter_empty_conv)

lemma checkPermissions_missing:
  assumes "missing_permissions authCtx (RequiredPermissions op) \<noteq> []"
  shows "checkPermissions op authCtx =
           Some (errorString (''insufficient permissions for '' @ Name op
                   @ '' (requires '' @ fmt_v (RequiredPermissions op) @ '')''))"
proof -
  from assms have "\<not> HasAllPermissions authCtx (RequiredPermissions op)"
    by (simp add: missing_permissions_Nil_iff)
  moreover from assms have "RequiredPermissions op \<noteq> []"
    by (auto simp: missing_permissions_def)
  ultimately show ?thesis
    by (simp add: checkPermissions_def Let_def)
qed

lemma checkPermissions_no_requirement:
  "RequiredPermissions op = [] \<Longrightarrow> checkPermissions op authCtx = None"
  by (simp add: checkPermissions_def)

lemma checkPermissions_ignores_delegate:
  "checkPermissions (op\<lparr>Validate := v, Execute := x\<rparr>) authCtx = checkPermissions op authCtx"
  by (simp add: checkPermissions_def Let_def)

lemma checkPermissions_ignores_Execute:
  "checkPermissions (op\<lparr>Execute := x\<rparr>) authCtx = checkPermissions op authCtx"
  by (simp add: checkPermissions_def Let_def)

lemma sublist_Name_insufficient:
  "sublist n (''insufficient permissions for '' @ n @ rest)"
  by (metis sublist_appendI)

lemma sublist_Name_validation:
  "sublist n (''validation failed for '' @ n @ rest)"
  by (metis sublist_appendI)

text \<open>The run of \<^verbatim>\<open>StartService\<close> for the local-pipe identity, with the sample
  arguments and clock readings.\<close>

lemma Run_StartService_stdio_user:
  "Run sample_clock (StartService counting_delegate) start_args stdio_user 0 =
     (Inr \<lparr> Tool = ''ambari_services_startservice'', OperationType = ''actionable'',
            ExecutionMs = 50, Timestamp = RFC3339_UTC 1700000000, Result = ''accepted'' \<rparr>,
      [Logged (Entry InfoLevel ''Actionable operation requested''
           [(''user'', Text ''stdio-user''), (''tool'', Text ''ambari_services_startservice''),
            (''type'', Text ''actionable'')]),
       Called_Validate start_args, Called_Execute start_args], 1)"
  by (simp add: Run_def checkPermissions_def StartService_def StartService_Validate_def
        stdio_user_def HasPermission_def PermissionGroups_def Permission_defs Actionable_def
        start_args_def counting_delegate_def sample_clock_def Milliseconds_def time_Since_def
        maxDuration_def minDuration_def Format_RFC3339_UTC_def)

subsection \<open>Authorization failure\<close>

text \<open>
  Claim C1, as the code has it. When the identity lacks at least one required permission,
  \<^verbatim>\<open>Run\<close> returns the error of \<^verbatim>\<open>checkPermissions\<close>, whose message names the
  operation and lists every permission the operation requires (the whole list
  \<^verbatim>\<open>required\<close>, through \<^verbatim>\<open>%v\<close>), not only the missing ones. Nothing is logged,
  neither \<^verbatim>\<open>Validate\<close> nor \<^verbatim>\<open>Execute\<close> is called, the state of the world is
  unchanged, and the outcome is the same whatever the two methods are.
\<close>

theorem Run_unauthorized:
  assumes "missing_permissions authCtx (RequiredPermissions op) \<noteq> []"
  shows "Run clk op args authCtx s =
           (Inl (errorString (''insufficient permissions for '' @ Name op
                   @ '' (requires '' @ fmt_v (RequiredPermissions op) @ '')'')), [], s)
         \<and> (\<forall>v x. Run clk (op\<lparr>Validate := v, Execute := x\<rparr>) args authCtx s
                    = Run clk op args authCtx s)"
proof -
  let ?e = "errorString (''insufficient permissions for '' @ Name op
                   @ '' (requires '' @ fmt_v (RequiredPermissions op) @ '')'')"
  have a: "checkPermissions op authCtx = Some ?e"
    using assms by (rule checkPermissions_missing)
  have b: "checkPermissions (op\<lparr>Validate := v, Execute := x\<rparr>) authCtx = Some ?e" for v x
    using a by (simp add: checkPermissions_ignores_delegate)
  show ?thesis
    using a b by (simp add: Run_def)
qed

text \<open>A viewer asks to start a service, which requires \<^verbatim>\<open>service:operate\<close>: the call
  counter of the delegate stays at 0.\<close>

theorem Run_unauthorized_witness:
  "missing_permissions viewer (RequiredPermissions (StartService counting_delegate)) \<noteq> []
   \<and> Run sample_clock (StartService counting_delegate) start_args viewer 0 =
       (Inl (errorString
          ''insufficient permissions for ambari_services_startservice (requires [service:operate])''),
        [], 0)"
proof -
  have h: "missing_permissions viewer (RequiredPermissions (StartService counting_delegate)) \<noteq> []"
    by (simp add: missing_permissions_def viewer_def StartService_def HasPermission_def
          PermissionGroups_def Permission_defs)
  from Run_unauthorized [OF h, of sample_clock start_args 0] h show ?thesis
    by (simp add: StartService_def fmt_v_def Permission_defs)
qed

text \<open>
  The error does not list exactly the missing permissions. A viewer, who holds
  \<^verbatim>\<open>service:view\<close>, calls an operation that requires \<^verbatim>\<open>service:view\<close> and
  \<^verbatim>\<open>service:restart\<close>: the only missing permission is \<^verbatim>\<open>service:restart\<close>, and the
  error lists both.
\<close>

theorem Run_lists_required_not_missing:
  "Run sample_clock RestartService start_args viewer 0 =
     (Inl (errorString
        ''insufficient permissions for ambari_services_restartservice (requires [service:view service:restart])''),
      [], 0)
   \<and> missing_permissions viewer (RequiredPermissions RestartService) = [''service:restart'']
   \<and> HasPermission viewer ''service:view''"
  by (simp add: Run_def checkPermissions_def missing_permissions_def viewer_def RestartService_def
        StartService_def HasPermission_def PermissionGroups_def Permission_defs fmt_v_def)

subsection \<open>Validation failure\<close>

text \<open>
  Claim C2. When \<^verbatim>\<open>Validate\<close> rejects the arguments, \<^verbatim>\<open>Run\<close> returns an error
  whose message contains the operation's name, whatever the identity's permissions are
  (the error of the permission check when that fails, that of the validation otherwise);
  \<^verbatim>\<open>Execute\<close> is not called, the state of the world is unchanged, and the outcome is
  the same whatever \<^verbatim>\<open>Execute\<close> is.
\<close>

theorem Run_invalid_arguments:
  assumes "Validate op args = Some verr"
  shows "\<exists>err. fst (Run clk op args authCtx s) = Inl err
           \<and> sublist (Name op) (Error err)
           \<and> \<not> list_ex is_Called_Execute (fst (snd (Run clk op args authCtx s)))
           \<and> snd (snd (Run clk op args authCtx s)) = s
           \<and> (\<forall>x. Run clk (op\<lparr>Execute := x\<rparr>) args authCtx s = Run clk op args authCtx s)"
proof (cases "checkPermissions op authCtx")
  case None
  let ?e = "wrapError (''validation failed for '' @ Name op @ '': '' @ Error verr) verr"
  have run: "Run clk op args authCtx s
               = (Inl ?e, (if Type op = Actionable
                 then [Logged (Entry InfoLevel ''Actionable operation requested''
                         [(''user'', Text (Username authCtx)), (''tool'', Text (Name op)),
                          (''type'', Text ''actionable'')])]
                 else []) @ [Called_Validate args], s)"
    using None assms by (simp add: Run_def Let_def)
  have same: "Run clk (op\<lparr>Execute := x\<rparr>) args authCtx s = Run clk op args authCtx s" for x
    using None assms by (simp add: Run_def Let_def checkPermissions_ignores_Execute)
  have named: "sublist (Name op) (Error ?e)"
    unfolding Error.simps by (rule sublist_Name_validation)
  have quiet: "\<not> list_ex is_Called_Execute (fst (snd (Run clk op args authCtx s)))"
    unfolding run by simp
  from run same named quiet show ?thesis
    by (intro exI [of _ ?e]) simp
next
  case (Some e)
  have run: "Run clk op args authCtx s = (Inl e, [], s)"
    using Some by (simp add: Run_def)
  have same: "Run clk (op\<lparr>Execute := x\<rparr>) args authCtx s = Run clk op args authCtx s" for x
    using Some by (simp add: Run_def checkPermissions_ignores_Execute)
  have "e = errorString (''insufficient permissions for '' @ Name op
                   @ '' (requires '' @ fmt_v (RequiredPermissions op) @ '')'')"
    using Some by (simp add: checkPermissions_def Let_def split: if_splits)
  then have named: "sublist (Name op) (Error e)"
    unfolding Error.simps by (simp only: Error.simps sublist_Name_insufficient)
  from run same named show ?thesis
    by (intro exI [of _ e]) simp
qed

text \<open>The local-pipe identity, which holds every permission, starts a service with an
  empty argument map.\<close>

theorem Run_invalid_arguments_witness:
  "Validate (StartService counting_delegate) Map.empty = Some (errorString ''clusterName is required'')
   \<and> Run sample_clock (StartService counting_delegate) Map.empty stdio_user 0 =
       (Inl (wrapError
          ''validation failed for ambari_services_startservice: clusterName is required''
          (errorString ''clusterName is required'')),
        [Logged (Entry InfoLevel ''Actionable operation requested''
           [(''user'', Text ''stdio-user''), (''tool'', Text ''ambari_services_startservice''),
            (''type'', Text ''actionable'')]),
         Called_Validate Map.empty], 0)
   \<and> (\<exists>err. fst (Run sample_clock (StartService counting_delegate) Map.empty stdio_user 0) = Inl err
           \<and> sublist ''ambari_services_startservice'' (Error err))"
proof -
  have h: "Validate (StartService counting_delegate) Map.empty
             = Some (errorString ''clusterName is required'')"
    by (simp add: StartService_def StartService_Validate_def)
  have r: "Run sample_clock (StartService counting_delegate) Map.empty stdio_user 0 =
       (Inl (wrapError
          ''validation failed for ambari_services_startservice: clusterName is required''
          (errorString ''clusterName is required'')),
        [Logged (Entry InfoLevel ''Actionable operation requested''
           [(''user'', Text ''stdio-user''), (''tool'', Text ''ambari_services_startservice''),
            (''type'', Text ''actionable'')]),
         Called_Validate Map.empty], 0)"
    by (simp add: Run_def checkPermissions_def StartService_def StartService_Validate_def
          stdio_user_def HasPermission_def PermissionGroups_def Permission_defs Actionable_def)
  from Run_invalid_arguments [OF h, of sample_clock stdio_user 0]
  have "\<exists>err. fst (Run sample_clock (StartService counting_delegate) Map.empty stdio_user 0) = Inl err
           \<and> sublist (Name (StartService counting_delegate)) (Error err)"
    by blast
  then have "\<exists>err. fst (Run sample_clock (StartService counting_delegate) Map.empty stdio_user 0) = Inl err
           \<and> sublist ''ambari_services_startservice'' (Error err)"
    by (simp add: StartService_def)
  with h r show ?thesis by blast
qed

subsection \<open>Operations that require no permission\<close>

text \<open>
  Claim C10. For an operation whose list of required permissions is empty, the permission
  check returns no error for every identity, also one that holds no permission at all, and
  \<^verbatim>\<open>Run\<close> calls \<^verbatim>\<open>Validate\<close> with the caller's arguments.
\<close>

theorem Run_no_requirement:
  assumes "RequiredPermissions op = []"
  shows "checkPermissions op authCtx = None
         \<and> Called_Validate args \<in> set (fst (snd (Run clk op args authCtx s)))"
proof -
  have c: "checkPermissions op authCtx = None"
    using assms by (rule checkPermissions_no_requirement)
  then show ?thesis
    by (auto simp: Run_def Let_def split: option.splits prod.splits sum.splits)
qed

theorem Run_no_requirement_witness:
  "RequiredPermissions Ping = [] \<and> Permissions nobody = []
   \<and> checkPermissions Ping nobody = None
   \<and> Called_Validate start_args \<in> set (fst (snd (Run sample_clock Ping start_args nobody 0)))"
proof -
  have h: "RequiredPermissions Ping = []" by (simp add: Ping_def)
  from Run_no_requirement [OF h, of nobody start_args sample_clock 0] h show ?thesis
    by (simp add: nobody_def)
qed

subsection \<open>The result envelope\<close>

lemma Milliseconds_nonneg: "0 \<le> d \<Longrightarrow> 0 \<le> Milliseconds d"
  by (simp add: Milliseconds_def)

lemma time_Since_nonneg: "mono_ns start \<le> mono_ns now \<Longrightarrow> 0 \<le> time_Since start now"
  by (simp add: time_Since_def Let_def maxDuration_def minDuration_def)

lemma Run_Inr_result:
  assumes "Run clk op args authCtx s = (Inr res, tr, s')"
  shows "Tool res = Name op \<and> OperationType res = Type op
         \<and> ExecutionMs res = Milliseconds (time_Since (now_start clk) (now_since clk))
         \<and> Timestamp res = Format_RFC3339_UTC (now_stamp clk)"
  using assms
  by (auto simp: Run_def Let_def split: option.splits prod.splits sum.splits)

text \<open>
  Claim C9, as the code has it. A result that \<^verbatim>\<open>Run\<close> returns carries the operation's
  name and type tag. Its elapsed milliseconds are not negative when the monotonic clock
  did not run backwards between the start and the reading of \<^verbatim>\<open>time.Since\<close>. Its
  timestamp is the wall clock reading at completion in UTC, cut to the whole second (the
  layout RFC3339 has no fractions): when the wall clock did not run backwards it is no
  earlier than the second in which the invocation started, and less than one second
  earlier than the start itself.
\<close>

theorem Run_result_metadata:
  assumes "Run clk op args authCtx s = (Inr res, tr, s')"
  shows "Tool res = Name op \<and> OperationType res = Type op
         \<and> (mono_ns (now_start clk) \<le> mono_ns (now_since clk) \<longrightarrow> 0 \<le> ExecutionMs res)
         \<and> unix_seconds (Timestamp res) = wall_ns (now_stamp clk) div 1000000000
         \<and> (wall_ns (now_start clk) \<le> wall_ns (now_stamp clk) \<longrightarrow>
              wall_ns (now_start clk) div 1000000000 \<le> unix_seconds (Timestamp res)
              \<and> wall_ns (now_start clk) - unix_seconds (Timestamp res) * 1000000000 < 1000000000)"
proof -
  note r = Run_Inr_result [OF assms]
  have ts: "unix_seconds (Timestamp res) = wall_ns (now_stamp clk) div 1000000000"
    using r by (simp add: Format_RFC3339_UTC_def)
  have el: "mono_ns (now_start clk) \<le> mono_ns (now_since clk) \<Longrightarrow> 0 \<le> ExecutionMs res"
    using r by (simp add: Milliseconds_nonneg time_Since_nonneg)
  have ord: "wall_ns (now_start clk) div 1000000000 \<le> unix_seconds (Timestamp res)
             \<and> wall_ns (now_start clk) - unix_seconds (Timestamp res) * 1000000000 < 1000000000"
    if "wall_ns (now_start clk) \<le> wall_ns (now_stamp clk)"
  proof -
    let ?a = "wall_ns (now_start clk)" and ?b = "wall_ns (now_stamp clk)"
    have 1: "?a div 1000000000 \<le> ?b div 1000000000"
      using that by (rule zdiv_mono1) simp
    have "?a = (?a div 1000000000) * 1000000000 + ?a mod 1000000000" by simp
    moreover have "?a mod 1000000000 < 1000000000" by simp
    ultimately have "?a - (?a div 1000000000) * 1000000000 < 1000000000" by linarith
    moreover have "(?a div 1000000000) * 1000000000 \<le> (?b div 1000000000) * 1000000000"
      using 1 by simp
    ultimately show ?thesis using 1 ts by linarith
  qed
  from r ts el ord show ?thesis by blast
qed

theorem Run_result_metadata_witness:
  "Run sample_clock (StartService counting_delegate) start_args stdio_user 0 =
     (Inr \<lparr> Tool = ''ambari_services_startservice'', OperationType = ''actionable'',
            ExecutionMs = 50, Timestamp = RFC3339_UTC 1700000000, Result = ''accepted'' \<rparr>,
      [Logged (Entry InfoLevel ''Actionable operation requested''
           [(''user'', Text ''stdio-user''), (''tool'', Text ''ambari_services_startservice''),
            (''type'', Text ''actionable'')]),
       Called_Validate start_args, Called_Execute start_args], 1)
   \<and> mono_ns (now_start sample_clock) \<le> mono_ns (now_since sample_clock)
   \<and> wall_ns (now_start sample_clock) \<le> wall_ns (now_stamp sample_clock)
   \<and> (0::int) \<le> 50
   \<and> wall_ns (now_start sample_clock) div 1000000000 \<le> 1700000000
   \<and> wall_ns (now_start sample_clock) - 1700000000 * 1000000000 < 1000000000"
  using Run_result_metadata [OF Run_StartService_stdio_user] Run_StartService_stdio_user
  by (simp add: sample_clock_def)

text \<open>
  The timestamp can be earlier than the start of the invocation. The invocation starts at
  1700000000.9 s and completes 50 ms later, on a wall clock that does not run backwards; the
  timestamp is the second 1700000000, which is 0.9 s before the start.
\<close>

theorem Run_timestamp_before_start:
  "Run sample_clock (StartService counting_delegate) start_args stdio_user 0 =
     (Inr \<lparr> Tool = ''ambari_services_startservice'', OperationType = ''actionable'',
            ExecutionMs = 50, Timestamp = RFC3339_UTC 1700000000, Result = ''accepted'' \<rparr>,
      [Logged (Entry InfoLevel ''Actionable operation requested''
           [(''user'', Text ''stdio-user''), (''tool'', Text ''ambari_services_startservice''),
            (''type'', Text ''actionable'')]),
       Called_Validate start_args, Called_Execute start_args], 1)
   \<and> 1700000000 * 1000000000 < wall_ns (now_start sample_clock)
   \<and> wall_ns (now_start sample_clock) \<le> wall_ns (now_stamp sample_clock)"
  using Run_StartService_stdio_user by (simp add: sample_clock_def)

section \<open>Properties of the Registry\<close>

lemma Register_fresh:
  assumes "Register r op1 = (None, r1, log1)"
  shows "ops r1 (Name op1) = Some op1"
  using assms
  by (auto simp: Register_def Let_def split: option.splits if_splits)

text \<open>
  Claim C3. After \<^verbatim>\<open>Register(op1)\<close> has succeeded, from any state of the registry,
  \<^verbatim>\<open>Register(op2)\<close> for an operation of the same name returns an error and leaves the
  registry as it was (the map and both lists, nothing is logged), and \<^verbatim>\<open>Get\<close> of
  the name still returns \<open>op1\<close>.
\<close>

theorem Register_duplicate:
  assumes "Register r op1 = (None, r1, log1)" and "Name op2 = Name op1"
  shows "Register r1 op2 =
           (Some (errorString (''operation '' @ Name op2 @ '' already registered'')), r1, [])
         \<and> Get r1 (Name op1) = Some op1
         \<and> ReadOnlyOps (fst (snd (Register r1 op2))) = ReadOnlyOps r1
         \<and> ActionableOps (fst (snd (Register r1 op2))) = ActionableOps r1"
proof -
  have a: "ops r1 (Name op1) = Some op1"
    using assms(1) by (rule Register_fresh)
  then have b: "Register r1 op2 =
           (Some (errorString (''operation '' @ Name op2 @ '' already registered'')), r1, [])"
    using assms(2) by (simp add: Register_def)
  from a b show ?thesis by (simp add: Get_def)
qed

theorem Register_duplicate_witness:
  "Register NewRegistry (StartService counting_delegate) =
     (None,
      \<lparr> ops = [''ambari_services_startservice'' \<mapsto> StartService counting_delegate],
        readonly = [], actionable = [StartService counting_delegate] \<rparr>,
      [Entry DebugLevel ''Operation registered''
         [(''name'', Text ''ambari_services_startservice''), (''type'', Text ''actionable''),
          (''category'', Text ''services'')]])
   \<and> Name StartService_again = Name (StartService counting_delegate)
   \<and> Register
        \<lparr> ops = [''ambari_services_startservice'' \<mapsto> StartService counting_delegate],
          readonly = [], actionable = [StartService counting_delegate] \<rparr>
        StartService_again =
       (Some (errorString ''operation ambari_services_startservice already registered''),
        \<lparr> ops = [''ambari_services_startservice'' \<mapsto> StartService counting_delegate],
          readonly = [], actionable = [StartService counting_delegate] \<rparr>, [])
   \<and> Get \<lparr> ops = [''ambari_services_startservice'' \<mapsto> StartService counting_delegate],
          readonly = [], actionable = [StartService counting_delegate] \<rparr>
        ''ambari_services_startservice'' = Some (StartService counting_delegate)"
proof -
  let ?r1 = "\<lparr> ops = [''ambari_services_startservice'' \<mapsto> StartService counting_delegate],
        readonly = [], actionable = [StartService counting_delegate] \<rparr>"
  have n: "Name (StartService counting_delegate) = ''ambari_services_startservice''"
    by (simp add: StartService_def)
  have t: "Type (StartService counting_delegate) = ''actionable''"
    by (simp add: StartService_def Actionable_def)
  have c: "Category (StartService counting_delegate) = ''services''"
    by (simp add: StartService_def)
  have h1: "Register NewRegistry (StartService counting_delegate) =
     (None, ?r1,
      [Entry DebugLevel ''Operation registered''
         [(''name'', Text ''ambari_services_startservice''), (''type'', Text ''actionable''),
          (''category'', Text ''services'')]])"
    by (simp add: Register_def NewRegistry_def n t c ReadOnly_def Actionable_def)
  have h2: "Name StartService_again = Name (StartService counting_delegate)"
    by (simp add: StartService_again_def)
  from Register_duplicate [OF h1 h2] h1 h2 show ?thesis
    by (simp add: n)
qed

section \<open>Properties of the LDAP provider\<close>

lemma set_permSet_insert: "set (permSet_insert S p) = insert p (set S)"
  by (auto simp: permSet_insert_def)

lemma set_foldl_permSet_insert: "set (foldl permSet_insert S ps) = set S \<union> set ps"
  by (induction ps arbitrary: S) (auto simp: set_permSet_insert)

lemma set_map_groups:
  "set (map_groups m groups S)
     = set S \<union> (\<Union>g \<in> set groups. case m g of None \<Rightarrow> {} | Some perms \<Rightarrow> set perms)"
  by (induction groups arbitrary: S) (auto simp: set_foldl_permSet_insert split: option.splits)

lemma set_map_groups_Nil: "set (map_groups (groupMappings p) groups []) = group_union p groups"
  by (simp add: set_map_groups group_union_def)

lemma Authenticate_operator:
  "Authenticate ldapProvider operator_headers =
     Inr \<lparr> Username = ''dana'', Groups = [''hadoop-operators'', ''data-engineers''],
           Permissions = [''cluster:operate'', ''service:operate'', ''service:restart'',
                          ''alert:manage'', ''cluster:view'', ''service:view'', ''config:view''],
           IsValidated = True, Source = ''LDAP'', Headers = operator_headers \<rparr>"
  by (simp add: Authenticate_def ldapProvider_def NewLDAPProvider_def index_def
        operator_headers_def defaultGroupMappings_def TrimSpace_def isSpace_def
        permSet_insert_def Let_def)

lemma Authenticate_intern:
  "Authenticate ldapProvider intern_headers =
     Inr \<lparr> Username = ''carol'', Groups = [''interns''],
           Permissions = [''cluster:admin'', ''service:admin''],
           IsValidated = True, Source = ''LDAP'', Headers = intern_headers \<rparr>"
  by (simp add: Authenticate_def ldapProvider_def NewLDAPProvider_def index_def
        intern_headers_def defaultGroupMappings_def TrimSpace_def isSpace_def
        permSet_insert_def Let_def)

lemma group_union_interns: "group_union ldapProvider [''interns''] = {}"
  by (simp add: group_union_def ldapProvider_def NewLDAPProvider_def defaultGroupMappings_def)

text \<open>
  Claim C7, as the code has it. For every header map from which a username is extracted
  (under the primary or the secondary header name), \<^verbatim>\<open>Authenticate\<close> returns an
  identity whose permission set is the union, over the identity's groups, of the
  permissions mapped to each group when that union is not empty, and the configured
  default permission set when it is empty.
\<close>

theorem Authenticate_permissions:
  assumes "index headers (headerPrefix p @ ''name'') \<noteq> []
           \<or> index headers (headerPrefix p @ ''username'') \<noteq> []"
  shows "\<exists>ctx. Authenticate p headers = Inr ctx
           \<and> set (Permissions ctx) =
               (if group_union p (Groups ctx) = {} then set (defaultPermissions p)
                else group_union p (Groups ctx))"
proof -
  define username where "username =
    (if index headers (headerPrefix p @ ''name'') = []
     then index headers (headerPrefix p @ ''username'')
     else index headers (headerPrefix p @ ''name''))"
  define groups where "groups =
    (if index headers (headerPrefix p @ ''groups'') \<noteq> []
     then map TrimSpace (Split (index headers (headerPrefix p @ ''groups'')) CHR '','')
     else [])"
  define permSet where "permSet = map_groups (groupMappings p) groups []"
  define perms where "perms =
    (if length permSet = 0 then foldl permSet_insert permSet (defaultPermissions p) else permSet)"
  define ctx where "ctx =
    \<lparr> Username = username, Groups = groups, Permissions = perms,
      IsValidated = True, Source = ''LDAP'', Headers = headers \<rparr>"
  have u: "username \<noteq> []"
    using assms by (auto simp: username_def)
  have run: "Authenticate p headers = Inr ctx"
    using u by (simp add: Authenticate_def Let_def ctx_def perms_def permSet_def groups_def
                  username_def)
  have s: "set permSet = group_union p groups"
    by (simp add: permSet_def set_map_groups_Nil)
  have "set perms = (if group_union p groups = {} then set (defaultPermissions p)
                     else group_union p groups)"
  proof (cases "permSet = []")
    case True
    then have "group_union p groups = {}" using s by simp
    moreover have "set perms = set (defaultPermissions p)"
      using True by (simp add: perms_def set_foldl_permSet_insert)
    ultimately show ?thesis by simp
  next
    case False
    then have "group_union p groups \<noteq> {}" using s by auto
    moreover have "perms = permSet" using False by (simp add: perms_def)
    ultimately show ?thesis using s by simp
  qed
  then show ?thesis using run by (simp add: ctx_def)
qed

text \<open>An operator in two mapped groups receives the union of both mappings.\<close>

theorem Authenticate_permissions_witness:
  "index operator_headers (headerPrefix ldapProvider @ ''name'') \<noteq> []
   \<and> (\<exists>ctx. Authenticate ldapProvider operator_headers = Inr ctx
         \<and> Groups ctx = [''hadoop-operators'', ''data-engineers'']
         \<and> group_union ldapProvider (Groups ctx) \<noteq> {}
         \<and> set (Permissions ctx) = group_union ldapProvider (Groups ctx)
         \<and> set (Permissions ctx) =
             {''cluster:operate'', ''service:operate'', ''service:restart'', ''alert:manage'',
              ''cluster:view'', ''service:view'', ''config:view''})"
proof -
  have h: "index operator_headers (headerPrefix ldapProvider @ ''name'') \<noteq> []"
    by (simp add: index_def operator_headers_def ldapProvider_def NewLDAPProvider_def)
  have g: "group_union ldapProvider [''hadoop-operators'', ''data-engineers'']
             = {''cluster:operate'', ''service:operate'', ''service:restart'', ''alert:manage'',
                ''cluster:view'', ''service:view'', ''config:view''}"
    by (auto simp: group_union_def ldapProvider_def NewLDAPProvider_def defaultGroupMappings_def)
  from Authenticate_permissions [of operator_headers ldapProvider] h
  obtain ctx where c: "Authenticate ldapProvider operator_headers = Inr ctx"
    and p: "set (Permissions ctx) =
               (if group_union ldapProvider (Groups ctx) = {}
                then set (defaultPermissions ldapProvider)
                else group_union ldapProvider (Groups ctx))"
    by blast
  from c have gr: "Groups ctx = [''hadoop-operators'', ''data-engineers'']"
    by (auto simp: Authenticate_operator)
  have ne: "group_union ldapProvider (Groups ctx) \<noteq> {}"
    unfolding gr g by simp
  from p ne have "set (Permissions ctx) = group_union ldapProvider (Groups ctx)" by simp
  with h c gr ne g show ?thesis by (intro conjI exI [of _ ctx]) simp_all
qed

text \<open>
  The permission set is not always the union over the groups. For the provider that
  \<^verbatim>\<open>main\<close> configures, a caller whose only group \<^verbatim>\<open>interns\<close> has no mapping gets
  the default permissions \<^verbatim>\<open>cluster:admin\<close> and \<^verbatim>\<open>service:admin\<close>, while the
  union over the caller's groups is empty.
\<close>

theorem Authenticate_default_not_union:
  "Authenticate ldapProvider intern_headers =
     Inr \<lparr> Username = ''carol'', Groups = [''interns''],
           Permissions = [''cluster:admin'', ''service:admin''],
           IsValidated = True, Source = ''LDAP'', Headers = intern_headers \<rparr>
   \<and> group_union ldapProvider [''interns''] = {}
   \<and> set [''cluster:admin'', ''service:admin''] \<noteq> group_union ldapProvider [''interns'']"
  using Authenticate_intern group_union_interns by simp

section \<open>Properties of the certificate authority\<close>

subsection \<open>Leaf certificates\<close>

lemma days_Duration_exact:
  assumes "- 106751 \<le> d" and "d \<le> 106751"
  shows "days_Duration d = d * 86400000000000"
proof -
  have a: "(word_of_int d :: 64 word) * 24 * 3600000000000 = word_of_int (d * 86400000000000)"
    by simp
  have b: "sint (word_of_int (d * 86400000000000) :: 64 word) = d * 86400000000000"
    unfolding sint_sbintrunc' using assms by (intro signed_take_bit_int_eq_self) simp_all
  show ?thesis
    unfolding days_Duration_def a by (rule b)
qed

lemma GenerateCA_Inr:
  assumes "GenerateCA lib clk config = Inr res"
  shows "\<exists>privateKey serialNumber certDER.
           rsa_GenerateKey lib (CAConfig.KeySize config) = Inr privateKey
         \<and> rand_Int lib (2 ^ 128) = Inr serialNumber
         \<and> x509_CreateCertificate lib (GenerateCA_template config serialNumber clk)
               (GenerateCA_template config serialNumber clk) (PublicKey privateKey) privateKey
             = Inr certDER
         \<and> x509_ParseCertificate lib certDER = Inr (CAResult.Certificate res)
         \<and> CAResult.PrivateKey res = privateKey"
  using assms
  by (auto simp: GenerateCA_def Let_def split: sum.splits)

lemma GenerateCertificate_Inr:
  assumes "GenerateCertificate lib clk config ca = Inr res"
  shows "\<exists>privateKey serialNumber certDER.
           rsa_GenerateKey lib (CertConfig.KeySize config) = Inr privateKey
         \<and> rand_Int lib (2 ^ 128) = Inr serialNumber
         \<and> x509_CreateCertificate lib (GenerateCertificate_template config serialNumber clk)
               (CAResult.Certificate ca) (PublicKey privateKey) (CAResult.PrivateKey ca)
             = Inr certDER
         \<and> x509_ParseCertificate lib certDER = Inr (CertResult.Certificate res)
         \<and> CertResult.PrivateKey res = privateKey"
  using assms
  by (auto simp: GenerateCertificate_def Let_def split: sum.splits)

lemma GenerateCertificate_template_usage:
  "ExtKeyUsage (GenerateCertificate_template config serialNumber clk)
     = [if IsServer config then ExtKeyUsageServerAuth else ExtKeyUsageClientAuth]"
  by (simp add: GenerateCertificate_template_def Let_def)

lemma GenerateCertificate_template_names:
  "x509_Certificate.DNSNames (GenerateCertificate_template config serialNumber clk)
     = (if IsServer config then CertConfig.DNSNames config else [])
   \<and> x509_Certificate.IPAddresses (GenerateCertificate_template config serialNumber clk)
     = (if IsServer config then CertConfig.IPAddresses config else [])"
  by (simp add: GenerateCertificate_template_def Let_def)

text \<open>
  Claim C5. Let \<^verbatim>\<open>GenerateCertificate\<close> return a leaf certificate, with an x509
  library whose parsed certificates keep the extended key usages and the names of the
  template they were created from. The certificate's extended key usage is the one-element
  list \<^verbatim>\<open>serverAuth\<close> for a server and \<^verbatim>\<open>clientAuth\<close> for a client, so never
  both. Its DNS names and IP addresses are those of the configuration, element by element
  in the same order, for a server, and both lists are empty for a client.
\<close>

theorem GenerateCertificate_usage_and_names:
  assumes "GenerateCertificate lib clk config ca = Inr res"
    and "x509_keeps_usage_and_names lib"
  shows "ExtKeyUsage (CertResult.Certificate res)
           = [if IsServer config then ExtKeyUsageServerAuth else ExtKeyUsageClientAuth]
         \<and> (IsServer config \<longrightarrow>
              x509_Certificate.DNSNames (CertResult.Certificate res) = CertConfig.DNSNames config
              \<and> x509_Certificate.IPAddresses (CertResult.Certificate res)
                  = CertConfig.IPAddresses config)
         \<and> (\<not> IsServer config \<longrightarrow>
              x509_Certificate.DNSNames (CertResult.Certificate res) = []
              \<and> x509_Certificate.IPAddresses (CertResult.Certificate res) = [])"
proof -
  from GenerateCertificate_Inr [OF assms(1)]
  obtain privateKey :: PrivateKey and serialNumber certDER where
    c: "x509_CreateCertificate lib (GenerateCertificate_template config serialNumber clk)
               (CAResult.Certificate ca) (PublicKey privateKey) (CAResult.PrivateKey ca)
             = Inr certDER"
    and p: "x509_ParseCertificate lib certDER = Inr (CertResult.Certificate res)"
    by auto
  let ?t = "GenerateCertificate_template config serialNumber clk"
  from assms(2) c p
  have k: "ExtKeyUsage (CertResult.Certificate res) = ExtKeyUsage ?t
         \<and> x509_Certificate.DNSNames (CertResult.Certificate res) = x509_Certificate.DNSNames ?t
         \<and> x509_Certificate.IPAddresses (CertResult.Certificate res)
             = x509_Certificate.IPAddresses ?t"
    unfolding x509_keeps_usage_and_names_def by blast
  show ?thesis
    using k GenerateCertificate_template_usage [of config serialNumber clk]
      GenerateCertificate_template_names [of config serialNumber clk]
    by simp
qed

lemma ideal_crypto_keeps: "x509_keeps_usage_and_names ideal_crypto"
  by (auto simp: x509_keeps_usage_and_names_def ideal_crypto_def split: bytes.splits)

lemma GenerateCertificate_server_Inr:
  "\<exists>res. GenerateCertificate ideal_crypto boundary_clock server_config sample_CA = Inr res"
  by (simp add: GenerateCertificate_def ideal_crypto_def server_config_def Let_def)

lemma GenerateCertificate_client_Inr:
  "\<exists>res. GenerateCertificate ideal_crypto boundary_clock client_config sample_CA = Inr res"
  by (simp add: GenerateCertificate_def ideal_crypto_def client_config_def Let_def)

text \<open>A server leaf for \<^verbatim>\<open>localhost\<close> and \<^verbatim>\<open>svc.example\<close>, and a client
  leaf.\<close>

theorem GenerateCertificate_usage_and_names_witness:
  "x509_keeps_usage_and_names ideal_crypto
   \<and> (\<exists>res. GenerateCertificate ideal_crypto boundary_clock server_config sample_CA = Inr res
         \<and> ExtKeyUsage (CertResult.Certificate res) = [ExtKeyUsageServerAuth]
         \<and> x509_Certificate.DNSNames (CertResult.Certificate res) = [''localhost'', ''svc.example'']
         \<and> x509_Certificate.IPAddresses (CertResult.Certificate res) = [IPv4 127 0 0 1])
   \<and> (\<exists>res. GenerateCertificate ideal_crypto boundary_clock client_config sample_CA = Inr res
         \<and> ExtKeyUsage (CertResult.Certificate res) = [ExtKeyUsageClientAuth]
         \<and> x509_Certificate.DNSNames (CertResult.Certificate res) = []
         \<and> x509_Certificate.IPAddresses (CertResult.Certificate res) = [])"
proof -
  obtain s where s: "GenerateCertificate ideal_crypto boundary_clock server_config sample_CA = Inr s"
    using GenerateCertificate_server_Inr by blast
  obtain c where c: "GenerateCertificate ideal_crypto boundary_clock client_config sample_CA = Inr c"
    using GenerateCertificate_client_Inr by blast
  have 1: "IsServer server_config" "CertConfig.DNSNames server_config = [''localhost'', ''svc.example'']"
    "CertConfig.IPAddresses server_config = [IPv4 127 0 0 1]"
    by (simp_all add: server_config_def)
  have 2: "\<not> IsServer client_config" by (simp add: client_config_def)
  from GenerateCertificate_usage_and_names [OF s ideal_crypto_keeps] 1
  have a: "ExtKeyUsage (CertResult.Certificate s) = [ExtKeyUsageServerAuth]
         \<and> x509_Certificate.DNSNames (CertResult.Certificate s) = [''localhost'', ''svc.example'']
         \<and> x509_Certificate.IPAddresses (CertResult.Certificate s) = [IPv4 127 0 0 1]"
    by simp
  from GenerateCertificate_usage_and_names [OF c ideal_crypto_keeps] 2
  have b: "ExtKeyUsage (CertResult.Certificate c) = [ExtKeyUsageClientAuth]
         \<and> x509_Certificate.DNSNames (CertResult.Certificate c) = []
         \<and> x509_Certificate.IPAddresses (CertResult.Certificate c) = []"
    by simp
  from a b s c ideal_crypto_keeps show ?thesis by blast
qed

subsection \<open>The CA certificate\<close>

lemma GenerateCA_template_fields:
  "IsCA (GenerateCA_template config serialNumber clk)
   \<and> BasicConstraintsValid (GenerateCA_template config serialNumber clk)
   \<and> MaxPathLen (GenerateCA_template config serialNumber clk) = 1
   \<and> KeyUsage (GenerateCA_template config serialNumber clk) AND KeyUsageCertSign \<noteq> 0
   \<and> KeyUsage (GenerateCA_template config serialNumber clk) AND KeyUsageCRLSign \<noteq> 0
   \<and> ExtKeyUsage (GenerateCA_template config serialNumber clk)
       = [ExtKeyUsageServerAuth, ExtKeyUsageClientAuth]"
  by (simp add: GenerateCA_template_def KeyUsage_defs)

lemma GenerateCA_template_validity:
  "wall_ns (NotAfter (GenerateCA_template config serialNumber clk))
     - wall_ns (NotBefore (GenerateCA_template config serialNumber clk))
   = days_Duration (CAConfig.ValidDays config)
     + (wall_ns (now_NotAfter clk) - wall_ns (now_NotBefore clk))"
  by (simp add: GenerateCA_template_def time_Add_def)

text \<open>
  Claim C6, as the code has it. When \<^verbatim>\<open>GenerateCA\<close> returns a CA, its certificate
  is what the x509 library parsed from the encoding of one template, passed to
  \<^verbatim>\<open>CreateCertificate\<close> both as the certificate and as its issuer and signed with
  the new key. That template has \<^verbatim>\<open>IsCA\<close> true, the path length 1, a key usage
  with certificate signing and CRL signing, and the extended key usages
  \<^verbatim>\<open>serverAuth\<close> and \<^verbatim>\<open>clientAuth\<close>. For at most 106751 days (whose
  nanoseconds fit \<^verbatim>\<open>int64\<close>), its \<^verbatim>\<open>NotAfter\<close> minus its \<^verbatim>\<open>NotBefore\<close>
  is the days of the configuration plus the time between the two readings of the clock,
  one for each bound.
\<close>

theorem GenerateCA_self_signed_template:
  assumes "GenerateCA lib clk config = Inr res"
  shows "\<exists>privateKey serialNumber certDER.
           rsa_GenerateKey lib (CAConfig.KeySize config) = Inr privateKey
         \<and> rand_Int lib (2 ^ 128) = Inr serialNumber
         \<and> x509_CreateCertificate lib (GenerateCA_template config serialNumber clk)
               (GenerateCA_template config serialNumber clk) (PublicKey privateKey) privateKey
             = Inr certDER
         \<and> x509_ParseCertificate lib certDER = Inr (CAResult.Certificate res)
         \<and> CAResult.PrivateKey res = privateKey
         \<and> IsCA (GenerateCA_template config serialNumber clk)
         \<and> BasicConstraintsValid (GenerateCA_template config serialNumber clk)
         \<and> MaxPathLen (GenerateCA_template config serialNumber clk) = 1
         \<and> KeyUsage (GenerateCA_template config serialNumber clk) AND KeyUsageCertSign \<noteq> 0
         \<and> KeyUsage (GenerateCA_template config serialNumber clk) AND KeyUsageCRLSign \<noteq> 0
         \<and> ExtKeyUsage (GenerateCA_template config serialNumber clk)
             = [ExtKeyUsageServerAuth, ExtKeyUsageClientAuth]
         \<and> (- 106751 \<le> CAConfig.ValidDays config \<and> CAConfig.ValidDays config \<le> 106751 \<longrightarrow>
              wall_ns (NotAfter (GenerateCA_template config serialNumber clk))
                - wall_ns (NotBefore (GenerateCA_template config serialNumber clk))
              = CAConfig.ValidDays config * 86400000000000
                + (wall_ns (now_NotAfter clk) - wall_ns (now_NotBefore clk)))"
proof -
  from GenerateCA_Inr [OF assms]
  obtain privateKey :: PrivateKey and serialNumber certDER where
    g: "rsa_GenerateKey lib (CAConfig.KeySize config) = Inr privateKey
         \<and> rand_Int lib (2 ^ 128) = Inr serialNumber
         \<and> x509_CreateCertificate lib (GenerateCA_template config serialNumber clk)
               (GenerateCA_template config serialNumber clk) (PublicKey privateKey) privateKey
             = Inr certDER
         \<and> x509_ParseCertificate lib certDER = Inr (CAResult.Certificate res)
         \<and> CAResult.PrivateKey res = privateKey"
    by auto
  have v: "wall_ns (NotAfter (GenerateCA_template config serialNumber clk))
                - wall_ns (NotBefore (GenerateCA_template config serialNumber clk))
              = CAConfig.ValidDays config * 86400000000000
                + (wall_ns (now_NotAfter clk) - wall_ns (now_NotBefore clk))"
    if "- 106751 \<le> CAConfig.ValidDays config \<and> CAConfig.ValidDays config \<le> 106751"
    using that GenerateCA_template_validity [of config serialNumber clk]
    by (simp add: days_Duration_exact)
  from g v GenerateCA_template_fields [of config serialNumber clk]
  show ?thesis
    by (intro exI [of _ privateKey] exI [of _ serialNumber] exI [of _ certDER]) blast
qed

lemma GenerateCA_sample:
  "GenerateCA ideal_crypto boundary_clock sample_CAConfig = Inr sample_CA"
  by (simp add: GenerateCA_def ideal_crypto_def sample_CAConfig_def sample_CA_def
        sample_CA_certificate_def GenerateCA_template_def boundary_clock_def whole_second_def
        time_Add_def days_Duration_def Let_def)

theorem GenerateCA_self_signed_template_witness:
  "GenerateCA ideal_crypto boundary_clock sample_CAConfig = Inr sample_CA
   \<and> - 106751 \<le> CAConfig.ValidDays sample_CAConfig
   \<and> CAConfig.ValidDays sample_CAConfig \<le> 106751
   \<and> (\<exists>privateKey serialNumber certDER.
         rsa_GenerateKey ideal_crypto (CAConfig.KeySize sample_CAConfig) = Inr privateKey
       \<and> rand_Int ideal_crypto (2 ^ 128) = Inr serialNumber
       \<and> x509_CreateCertificate ideal_crypto
             (GenerateCA_template sample_CAConfig serialNumber boundary_clock)
             (GenerateCA_template sample_CAConfig serialNumber boundary_clock)
             (PublicKey privateKey) privateKey = Inr certDER
       \<and> x509_ParseCertificate ideal_crypto certDER = Inr (CAResult.Certificate sample_CA)
       \<and> wall_ns (NotAfter (GenerateCA_template sample_CAConfig serialNumber boundary_clock))
           - wall_ns (NotBefore (GenerateCA_template sample_CAConfig serialNumber boundary_clock))
         = 365 * 86400000000000 + 1000)"
proof -
  have d: "- 106751 \<le> CAConfig.ValidDays sample_CAConfig"
    "CAConfig.ValidDays sample_CAConfig \<le> 106751"
    "CAConfig.ValidDays sample_CAConfig = 365"
    by (simp_all add: sample_CAConfig_def)
  have c: "wall_ns (now_NotAfter boundary_clock) - wall_ns (now_NotBefore boundary_clock) = 1000"
    by (simp add: boundary_clock_def)
  from GenerateCA_self_signed_template [OF GenerateCA_sample]
  obtain privateKey :: PrivateKey and serialNumber certDER where
    g: "rsa_GenerateKey ideal_crypto (CAConfig.KeySize sample_CAConfig) = Inr privateKey"
       "rand_Int ideal_crypto (2 ^ 128) = Inr serialNumber"
       "x509_CreateCertificate ideal_crypto
             (GenerateCA_template sample_CAConfig serialNumber boundary_clock)
             (GenerateCA_template sample_CAConfig serialNumber boundary_clock)
             (PublicKey privateKey) privateKey = Inr certDER"
       "x509_ParseCertificate ideal_crypto certDER = Inr (CAResult.Certificate sample_CA)"
       "- 106751 \<le> CAConfig.ValidDays sample_CAConfig
          \<and> CAConfig.ValidDays sample_CAConfig \<le> 106751 \<longrightarrow>
        wall_ns (NotAfter (GenerateCA_template sample_CAConfig serialNumber boundary_clock))
           - wall_ns (NotBefore (GenerateCA_template sample_CAConfig serialNumber boundary_clock))
         = CAConfig.ValidDays sample_CAConfig * 86400000000000
           + (wall_ns (now_NotAfter boundary_clock) - wall_ns (now_NotBefore boundary_clock))"
    by auto
  from g(5) d c
  have "wall_ns (NotAfter (GenerateCA_template sample_CAConfig serialNumber boundary_clock))
           - wall_ns (NotBefore (GenerateCA_template sample_CAConfig serialNumber boundary_clock))
         = 365 * 86400000000000 + 1000"
    by simp
  with g(1-4) d(1,2) GenerateCA_sample show ?thesis by blast
qed

text \<open>
  The validity is not exactly the whole days. A CA for 365 days is generated while the
  clock passes a second: the two bounds are read one microsecond apart, the template's
  validity is 365 days and one microsecond, and the validity of the certificate returned,
  whose times are encoded to the second, is 365 days and one second.
\<close>

theorem GenerateCA_validity_not_whole_days:
  "GenerateCA ideal_crypto boundary_clock sample_CAConfig = Inr sample_CA
   \<and> CAConfig.ValidDays sample_CAConfig = 365
   \<and> wall_ns (NotAfter (GenerateCA_template sample_CAConfig 42 boundary_clock))
       - wall_ns (NotBefore (GenerateCA_template sample_CAConfig 42 boundary_clock))
     = 365 * 86400000000000 + 1000
   \<and> wall_ns (NotAfter (CAResult.Certificate sample_CA))
       - wall_ns (NotBefore (CAResult.Certificate sample_CA))
     = 365 * 86400000000000 + 1000000000"
  using GenerateCA_sample
  by (simp add: sample_CAConfig_def sample_CA_def sample_CA_certificate_def
        GenerateCA_template_def boundary_clock_def time_Add_def days_Duration_def)

end
